theory Spec2Isabelle
  imports Complex_Main "HOL-Library.Multiset"
begin

section \<open>JavaScript values\<close>

text \<open>
  The analyzer is JavaScript. Its numbers are IEEE doubles. The statistics (mean,
  jitter, median, percentiles, deviation) are continuous quantities and are idealised
  here as reals, so their rounding error and the infinities are outside the model. The
  quality score is an integer that depends on the last bit of its operands; it is
  computed in binary64, with the rounding function \<open>binary64\<close> below. What is kept of the
  number type beyond that is the part that changes control flow: \<open>NaN\<close> (the result of
  arithmetic on \<open>undefined\<close>, and of \<open>0 / 0\<close>) and \<open>undefined\<close> (an array read outside the
  bounds, a property that is missing).
\<close>

datatype jsval = Number real | NaN | Undefined

fun js_add :: "jsval \<Rightarrow> jsval \<Rightarrow> jsval" where
  "js_add (Number a) (Number b) = Number (a + b)"
| "js_add _ _ = NaN"

fun js_sub :: "jsval \<Rightarrow> jsval \<Rightarrow> jsval" where
  "js_sub (Number a) (Number b) = Number (a - b)"
| "js_sub _ _ = NaN"

fun js_mul :: "jsval \<Rightarrow> jsval \<Rightarrow> jsval" where
  "js_mul (Number a) (Number b) = Number (a * b)"
| "js_mul _ _ = NaN"

text \<open>Division by a non-zero literal (the only divisor \<open>getMedian\<close> uses is 2).\<close>

fun js_div_literal :: "jsval \<Rightarrow> real \<Rightarrow> jsval" where
  "js_div_literal (Number a) c = Number (a / c)"
| "js_div_literal _ c = NaN"

text \<open>\<open>xs[i]\<close>: an element inside the bounds, \<open>undefined\<close> outside (also at \<open>-1\<close>).\<close>

definition js_index :: "real list \<Rightarrow> int \<Rightarrow> jsval" where
  "js_index xs i = (if 0 \<le> i \<and> i < int (length xs) then Number (xs ! nat i) else Undefined)"

text \<open>
  \<open>Array.prototype.sort(comparefn)\<close>. The language fixes the result, not the algorithm:
  the sort is stable, and a comparator result that is \<open>NaN\<close> is read as \<open>+0\<close>. For a
  consistent comparator every stable sort returns the same array, so a stable insertion
  sort stands for it.
\<close>

fun comparator_sign :: "jsval \<Rightarrow> real" where
  "comparator_sign (Number v) = v"
| "comparator_sign _ = 0"

fun js_insert :: "('a \<Rightarrow> 'a \<Rightarrow> jsval) \<Rightarrow> 'a \<Rightarrow> 'a list \<Rightarrow> 'a list" where
  "js_insert comparefn x [] = [x]"
| "js_insert comparefn x (y # ys) =
     (if comparator_sign (comparefn x y) \<le> 0 then x # y # ys
      else y # js_insert comparefn x ys)"

definition Array_sort :: "('a \<Rightarrow> 'a \<Rightarrow> jsval) \<Rightarrow> 'a list \<Rightarrow> 'a list" where
  "Array_sort comparefn xs = foldr (js_insert comparefn) xs []"

text \<open>\<open>(a, b) => a - b\<close>, the comparator of every numeric sort in the source.\<close>

definition numeric_ascending :: "real \<Rightarrow> real \<Rightarrow> jsval" where
  "numeric_ascending a b = Number (a - b)"

text \<open>\<open>xs.reduce((a, b) => a + b, 0)\<close>.\<close>

definition reduce_sum :: "real list \<Rightarrow> real" where
  "reduce_sum xs = foldl (\<lambda>a b. a + b) 0 xs"

text \<open>\<open>results.filter(r => r !== null)\<close> on a list of samples (\<open>None\<close> is \<open>null\<close>).\<close>

definition filter_not_null :: "'a option list \<Rightarrow> 'a list" where
  "filter_not_null rs = map the (filter (\<lambda>r. r \<noteq> None) rs)"

text \<open>The numbers of a list of values, when every value is a number.\<close>

fun numbers_of :: "jsval list \<Rightarrow> real list option" where
  "numbers_of [] = Some []"
| "numbers_of (Number v # vs) = map_option (\<lambda>xs. v # xs) (numbers_of vs)"
| "numbers_of (_ # vs) = None"

text \<open>
  \<open>Math.min(...xs)\<close> and \<open>Math.max(...xs)\<close>. The source calls them only behind the guard
  \<open>validResults.length > 0\<close>; on an empty list they would be the infinities.
\<close>

definition Math_min :: "real list \<Rightarrow> real" where
  "Math_min xs = Min (set xs)"

definition Math_max :: "real list \<Rightarrow> real" where
  "Math_max xs = Max (set xs)"

text \<open>\<open>Math.round\<close> rounds a half towards plus infinity.\<close>

definition Math_round :: "real \<Rightarrow> int" where
  "Math_round x = \<lfloor>x + 1 / 2\<rfloor>"

subsection \<open>Binary64 arithmetic\<close>

text \<open>
  An arithmetic operation on doubles returns the double nearest to the exact result,
  ties going to the even significand. \<open>binary64 x\<close> is that double for a real \<open>x\<close>: with
  \<open>2 ^ e \<le> |x| < 2 ^ (e + 1)\<close> the doubles around \<open>x\<close> are the multiples of
  \<open>2 ^ (e - 52)\<close>, and below \<open>2 ^ -1022\<close> (subnormal range) the multiples of \<open>2 ^ -1074\<close>.
  Overflow to infinity (at \<open>2 ^ 1024\<close>) and the sign of zero are not modelled; neither
  can arise in the score, whose operands are bounded.
\<close>

definition pow2 :: "int \<Rightarrow> real" where
  "pow2 e = (if 0 \<le> e then 2 ^ nat e else 1 / 2 ^ nat (- e))"

function bit_length :: "int \<Rightarrow> int" where
  "bit_length n = (if n \<le> 0 then 0 else 1 + bit_length (n div 2))"
  by pat_completeness auto
termination
  by (relation "measure nat") auto

declare bit_length.simps [simp del]

text \<open>The exponent \<open>e\<close> with \<open>2 ^ e \<le> x < 2 ^ (e + 1)\<close>, for positive \<open>x\<close>.\<close>

definition binade :: "real \<Rightarrow> int" where
  "binade x =
     (if 1 \<le> x then bit_length \<lfloor>x\<rfloor> - 1
      else - bit_length (\<lceil>1 / x\<rceil> - 1))"

definition round_half_even :: "real \<Rightarrow> int" where
  "round_half_even y =
     (let f = \<lfloor>y\<rfloor> in
      if y - real_of_int f < 1 / 2 then f
      else if 1 / 2 < y - real_of_int f then f + 1
      else if even f then f else f + 1)"

definition binary64 :: "real \<Rightarrow> real" where
  "binary64 x =
     (if x = 0 then 0
      else let e = max (binade \<bar>x\<bar>) (- 1022);
               ulp = pow2 (e - 52)
           in sgn x * real_of_int (round_half_even (\<bar>x\<bar> / ulp)) * ulp)"

text \<open>The four operations on doubles, and a decimal literal of the source text.\<close>

definition double_add :: "real \<Rightarrow> real \<Rightarrow> real" where
  "double_add a b = binary64 (a + b)"

definition double_sub :: "real \<Rightarrow> real \<Rightarrow> real" where
  "double_sub a b = binary64 (a - b)"

definition double_mul :: "real \<Rightarrow> real \<Rightarrow> real" where
  "double_mul a b = binary64 (a * b)"

definition double_div :: "real \<Rightarrow> real \<Rightarrow> real" where
  "double_div a b = binary64 (a / b)"

definition double_literal :: "real \<Rightarrow> real" where
  "double_literal c = binary64 c"

section \<open>Statistics engine\<close>

text \<open>
  \<open>calculateJitter(values)\<close> of both analyzer classes. The \<open>for\<close> loop that fills
  \<open>differences\<close> is the recursion \<open>differences_loop\<close>, started at \<open>i = 1\<close>.
\<close>

function differences_loop :: "real list \<Rightarrow> nat \<Rightarrow> real list \<Rightarrow> real list" where
  "differences_loop vals i differences =
     (if i < length vals
      then differences_loop vals (i + 1) (differences @ [\<bar>vals ! i - vals ! (i - 1)\<bar>])
      else differences)"
  by pat_completeness auto
termination
  by (relation "measure (\<lambda>(vals, i, differences). length vals - i)") auto

declare differences_loop.simps [simp del]

definition calculateJitter :: "real list \<Rightarrow> real" where
  "calculateJitter vals =
     (if length vals < 2 then 0
      else let differences = differences_loop vals 1 []
           in reduce_sum differences / real (length differences))"

text \<open>
  \<open>calculateJitter(times)\<close> of the backend (server.js): the argument may be missing
  (\<open>!times\<close>, here \<open>None\<close>) and may hold \<open>null\<close> entries, which are filtered out first.
\<close>

definition server_calculateJitter :: "real option list option \<Rightarrow> real" where
  "server_calculateJitter timesArg =
     (case timesArg of
        None \<Rightarrow> 0
      | Some ts \<Rightarrow>
          if length ts < 2 then 0
          else let validTimes = filter_not_null ts in
            if length validTimes < 2 then 0
            else let differences = differences_loop validTimes 1 []
                 in reduce_sum differences / real (length differences))"

text \<open>\<open>getMedian(values)\<close>: sorts a copy; on an empty list both reads are \<open>undefined\<close>.\<close>

definition getMedian :: "real list \<Rightarrow> jsval" where
  "getMedian vals =
     (let sorted = Array_sort numeric_ascending vals;
          mid = int (length sorted) div 2
      in if length sorted mod 2 \<noteq> 0 then js_index sorted mid
         else js_div_literal (js_add (js_index sorted (mid - 1)) (js_index sorted mid)) 2)"

text \<open>\<open>getStdDev(values)\<close>: population standard deviation; \<open>0 / 0\<close> on an empty list.\<close>

definition getStdDev :: "real list \<Rightarrow> jsval" where
  "getStdDev vals =
     (if vals = [] then NaN
      else let avg = reduce_sum vals / real (length vals);
               variance = foldl (\<lambda>acc val. acc + (val - avg) ^ 2) 0 vals / real (length vals)
           in Number (sqrt variance))"

text \<open>\<open>percentile(values, p)\<close>.\<close>

definition percentile :: "real list \<Rightarrow> real \<Rightarrow> jsval" where
  "percentile vals p =
     (if length vals = 0 then NaN
      else let sorted = Array_sort numeric_ascending vals;
               idx = real (length sorted - 1) * p;
               lo = \<lfloor>idx\<rfloor>;
               hi = \<lceil>idx\<rceil>
           in if lo = hi then js_index sorted lo
              else js_add (js_index sorted lo)
                     (js_mul (js_sub (js_index sorted hi) (js_index sorted lo))
                        (Number (idx - real_of_int lo))))"


section \<open>Quality scorer\<close>

text \<open>
  The last five lines of \<open>calculateQualityScore\<close>, from \<open>const Ln\<close> to the clamped
  \<open>return\<close>, as a function of the three doubles they read, every operation rounded to
  binary64 in the order the expression is evaluated (\<open>+\<close> associates to the left).
  \<open>Math.round\<close>, \<open>Math.min\<close> and \<open>Math.max\<close> are exact.
\<close>

definition qualityFormula :: "real \<Rightarrow> real \<Rightarrow> real \<Rightarrow> int" where
  "qualityFormula avg jitter loss =
     (let Ln = min (double_div avg 300) 1;
          Jn = min (double_div jitter 100) 1;
          Pn = min (double_div loss 10) 1;
          score = Math_round (double_mul 100 (double_sub 1
                    (double_add
                       (double_add (double_mul (double_literal 0.60) Ln)
                                   (double_mul (double_literal 0.25) Jn))
                       (double_mul (double_literal 0.15) Pn))))
      in max 0 (min score 100))"

text \<open>
  The mean and the jitter as \<open>calculateQualityScore\<close> obtains them, in binary64: the
  \<open>reduce\<close> adds from the left starting at 0, the loop of \<open>calculateJitter\<close> takes the
  absolute value of each rounded difference.
\<close>

definition reduce_sum64 :: "real list \<Rightarrow> real" where
  "reduce_sum64 xs = foldl (\<lambda>a b. double_add a b) 0 xs"

function differences_loop64 :: "real list \<Rightarrow> nat \<Rightarrow> real list \<Rightarrow> real list" where
  "differences_loop64 vals i differences =
     (if i < length vals
      then differences_loop64 vals (i + 1)
             (differences @ [\<bar>double_sub (vals ! i) (vals ! (i - 1))\<bar>])
      else differences)"
  by pat_completeness auto
termination
  by (relation "measure (\<lambda>(vals, i, differences). length vals - i)") auto

declare differences_loop64.simps [simp del]

definition calculateJitter64 :: "real list \<Rightarrow> real" where
  "calculateJitter64 vals =
     (if length vals < 2 then 0
      else let differences = differences_loop64 vals 1 []
           in double_div (reduce_sum64 differences) (real (length differences)))"




section \<open>Run state\<close>

text \<open>
  The fields of an analyzer object that a test run reads and writes. \<open>testResults\<close> holds
  one entry per recorded sample: \<open>null\<close> (\<open>None\<close>) for a failure, otherwise the value that
  was pushed as the latency, a number unless the backend's answer lacked one.
  \<open>useBackend\<close> exists in \<open>EnhancedNetworkAnalyzer\<close> only.
\<close>

record analyzer =
  testResults :: "jsval option list"
  testCount :: nat
  successCount :: nat
  failCount :: nat
  chartData :: "(nat \<times> jsval) list"
  maxDataPoints :: nat
  useBackend :: bool

text \<open>The constructors, and the reset at the head of \<open>startTest\<close>.\<close>

definition NetworkAnalyzer_new :: analyzer where
  "NetworkAnalyzer_new =
     \<lparr>testResults = [], testCount = 0, successCount = 0, failCount = 0,
      chartData = [], maxDataPoints = 30, useBackend = False\<rparr>"

definition EnhancedNetworkAnalyzer_new :: analyzer where
  "EnhancedNetworkAnalyzer_new =
     \<lparr>testResults = [], testCount = 0, successCount = 0, failCount = 0,
      chartData = [], maxDataPoints = 50, useBackend = True\<rparr>"

definition startTest_reset :: "analyzer \<Rightarrow> analyzer" where
  "startTest_reset st =
     st\<lparr>testResults := [], chartData := [], testCount := 0, successCount := 0, failCount := 0\<rparr>"

text \<open>
  \<open>calculateQualityScore()\<close>, the same text in both classes. Two cases are written out.
  A sample that is not a number (\<open>undefined\<close>) passes the filter and makes the sum, hence
  \<open>avg\<close>, \<open>Ln\<close>, the score and every \<open>Math\<close> call on it \<open>NaN\<close>. For \<open>testCount = 0\<close> the
  division \<open>failCount / testCount\<close> is \<open>0 / 0 = NaN\<close>, which propagates likewise, or a
  positive count over zero, plus infinity, which \<open>Math.min(_, 1)\<close> turns into \<open>Pn = 1\<close>
  exactly as a loss of 10 percent does.
\<close>

definition calculateQualityScore :: "analyzer \<Rightarrow> jsval" where
  "calculateQualityScore st =
     (let validResults = filter_not_null (testResults st) in
      if length validResults = 0 then Number 0
      else case numbers_of validResults of
        None \<Rightarrow> NaN
      | Some latencies \<Rightarrow>
          let avg = double_div (reduce_sum64 latencies) (real (length latencies));
              jitter = calculateJitter64 latencies
          in if testCount st = 0
             then (if failCount st = 0 then NaN
                   else Number (real_of_int (qualityFormula avg jitter 10)))
             else let loss = double_mul (double_div (real (failCount st)) (real (testCount st))) 100
                  in Number (real_of_int (qualityFormula avg jitter loss)))"

section \<open>Prober\<close>

text \<open>
  One \<open>fetch\<close> either resolves or rejects (with an \<open>AbortError\<close> when the timer aborted
  it, with a \<open>TypeError\<close> on a network failure). \<open>elapsed\<close> is \<open>endTime - startTime\<close> at
  the moment the promise settled.
\<close>

datatype js_error = AbortError | TypeError | BackendStatusError

datatype fetch_outcome = Resolved | Rejected js_error

text \<open>\<open>measureLatency()\<close>: \<open>Inr\<close> is the returned number, \<open>Inl\<close> the rethrown error.\<close>

definition measureLatency :: "real \<Rightarrow> fetch_outcome \<Rightarrow> real \<Rightarrow> js_error + real" where
  "measureLatency timeout outcome elapsed =
     (case outcome of
        Resolved \<Rightarrow> Inr elapsed
      | Rejected error \<Rightarrow> if elapsed < timeout then Inr elapsed else Inl error)"

text \<open>
  \<open>backendPing()\<close> of \<open>EnhancedNetworkAnalyzer\<close>. The backend's \<open>/api/ping\<close> answers with
  a body \<open>{alive, time, ...}\<close> when its ICMP probe ran, with a body that has \<open>alive\<close> but
  no \<open>time\<close> when it fell back to \<open>performHttpPing\<close> (\<open>data.time\<close> is then \<open>undefined\<close>), or
  with a bad status, or the request itself fails; in the last two cases the \<open>catch\<close>
  falls back to \<open>measureLatency\<close>. The result is \<open>data.alive ? data.time : null\<close>.
\<close>

datatype backend_response = Body bool real | BodyWithoutTime bool | BadStatus | RequestFailed

definition backendPing ::
  "backend_response \<Rightarrow> real \<Rightarrow> fetch_outcome \<Rightarrow> real \<Rightarrow> js_error + jsval option" where
  "backendPing response timeout outcome elapsed =
     (case response of
        Body alive time \<Rightarrow> Inr (if alive then Some (Number time) else None)
      | BodyWithoutTime alive \<Rightarrow> Inr (if alive then Some Undefined else None)
      | _ \<Rightarrow> map_sum id (\<lambda>latency. Some (Number latency))
               (measureLatency timeout outcome elapsed))"

section \<open>Sampler\<close>

text \<open>
  The \<open>try\<close>/\<open>catch\<close> of \<open>performSingleTest\<close>, after \<open>testCount++\<close>. The display calls
  inside it (\<open>updateMetrics\<close>, \<open>drawChart\<close>, \<open>addLog\<close>, \<open>saveTestResult\<close> and the like) are
  collaborators outside the engine; on a numeric latency they are taken not to throw.
\<close>

definition record_success :: "nat \<Rightarrow> jsval \<Rightarrow> analyzer \<Rightarrow> analyzer" where
  "record_success x latency st =
     (let st1 = st\<lparr>successCount := successCount st + 1,
                    testResults := testResults st @ [Some latency],
                    chartData := chartData st @ [(x, latency)]\<rparr>
      in if length (chartData st1) > maxDataPoints st1
         then st1\<lparr>chartData := tl (chartData st1)\<rparr>
         else st1)"

definition record_failure :: "analyzer \<Rightarrow> analyzer" where
  "record_failure st =
     st\<lparr>failCount := failCount st + 1, testResults := testResults st @ [None]\<rparr>"

text \<open>
  \<open>measured\<close> is what the awaited measurement gave: a thrown error (\<open>Inl\<close>), a latency, or
  \<open>null\<close>. The test \<open>latency !== null\<close> guards the whole success branch and has no \<open>else\<close>,
  so a \<open>null\<close> latency changes nothing. An \<open>undefined\<close> latency passes the test: the
  success is recorded, then \<open>updateMetrics\<close> reads it back as the current latency and
  \<open>current.toFixed(1)\<close> throws a \<open>TypeError\<close> inside the \<open>try\<close>, so the \<open>catch\<close> records a
  failure for the same probe.
\<close>

definition settle :: "js_error + jsval option \<Rightarrow> analyzer \<Rightarrow> analyzer" where
  "settle measured st =
     (case measured of
        Inr (Some Undefined) \<Rightarrow> record_failure (record_success (testCount st) Undefined st)
      | Inr (Some latency) \<Rightarrow> record_success (testCount st) latency st
      | Inr None \<Rightarrow> st
      | Inl error \<Rightarrow> record_failure st)"

text \<open>\<open>NetworkAnalyzer.performSingleTest()\<close>.\<close>

definition performSingleTest :: "real \<Rightarrow> fetch_outcome \<Rightarrow> real \<Rightarrow> analyzer \<Rightarrow> analyzer" where
  "performSingleTest timeout outcome elapsed st =
     settle (map_sum id (\<lambda>latency. Some (Number latency))
               (measureLatency timeout outcome elapsed))
       (st\<lparr>testCount := testCount st + 1\<rparr>)"

text \<open>\<open>EnhancedNetworkAnalyzer.performSingleTest()\<close>.\<close>

definition Enhanced_performSingleTest ::
  "backend_response \<Rightarrow> real \<Rightarrow> fetch_outcome \<Rightarrow> real \<Rightarrow> analyzer \<Rightarrow> analyzer" where
  "Enhanced_performSingleTest response timeout outcome elapsed st =
     settle
       (if useBackend st then backendPing response timeout outcome elapsed
        else map_sum id (\<lambda>latency. Some (Number latency))
               (measureLatency timeout outcome elapsed))
       (st\<lparr>testCount := testCount st + 1\<rparr>)"

text \<open>
  The two WebSocket handlers of \<open>EnhancedNetworkAnalyzer\<close> that also record samples:
  \<open>handleMonitoringUpdate(data)\<close> and \<open>handlePingResult(data)\<close>, with \<open>data = {alive, time}\<close>.
  The server sends \<open>time = result.avg\<close> of a one-probe \<open>performHttpPing\<close>, which is a number
  whenever \<open>alive\<close> is true; \<open>time\<close> is not read otherwise.
\<close>

definition handleMonitoringUpdate :: "bool \<Rightarrow> real \<Rightarrow> analyzer \<Rightarrow> analyzer" where
  "handleMonitoringUpdate alive time st =
     (if \<not> alive then record_failure st
      else record_success (testCount st) (Number time) (st\<lparr>testCount := testCount st + 1\<rparr>))"

definition handlePingResult :: "bool \<Rightarrow> real \<Rightarrow> analyzer \<Rightarrow> analyzer" where
  "handlePingResult alive time st =
     (if \<not> alive then record_failure st
      else st\<lparr>successCount := successCount st + 1,
              testResults := testResults st @ [Some (Number time)]\<rparr>)"

text \<open>
  A run is the sequence of what happened to the object after \<open>startTest\<close>: probes of
  \<open>runLimitedTest\<close>/\<open>runContinuousTest\<close> (one \<open>performSingleTest\<close> each) and, in the
  enhanced class, WebSocket messages. (A probe whose latency is \<open>undefined\<close> throws again
  in its \<open>catch\<close> and ends its test loop; the sequences below do not exclude events after
  it.)
\<close>

datatype probe = Probe fetch_outcome real

fun run_probe :: "real \<Rightarrow> analyzer \<Rightarrow> probe \<Rightarrow> analyzer" where
  "run_probe timeout st (Probe outcome elapsed) = performSingleTest timeout outcome elapsed st"

definition run :: "real \<Rightarrow> probe list \<Rightarrow> analyzer \<Rightarrow> analyzer" where
  "run timeout probes st = foldl (run_probe timeout) (startTest_reset st) probes"

datatype enhanced_event =
    SingleTest backend_response fetch_outcome real
  | MonitoringUpdate bool real
  | PingResult bool real

fun enhanced_step :: "real \<Rightarrow> analyzer \<Rightarrow> enhanced_event \<Rightarrow> analyzer" where
  "enhanced_step timeout st (SingleTest response outcome elapsed) =
     Enhanced_performSingleTest response timeout outcome elapsed st"
| "enhanced_step timeout st (MonitoringUpdate alive time) = handleMonitoringUpdate alive time st"
| "enhanced_step timeout st (PingResult alive time) = handlePingResult alive time st"

definition enhanced_run :: "real \<Rightarrow> enhanced_event list \<Rightarrow> analyzer \<Rightarrow> analyzer" where
  "enhanced_run timeout events st = foldl (enhanced_step timeout) (startTest_reset st) events"


section \<open>Statistics on arrays in a store\<close>

text \<open>
  Whether a function changes the array it is given cannot be read off a function on
  lists, so the three statistics are given a second time over a store of arrays: an
  address is an index into the store, \<open>[...values]\<close> and \<open>values.slice()\<close> allocate a
  fresh array with the same elements, \<open>sort\<close> overwrites the array at its address, and
  \<open>reduce\<close> only reads.
\<close>

type_synonym addr = nat
type_synonym store = "real list list"

definition array_copy :: "addr \<Rightarrow> store \<Rightarrow> addr \<times> store" where
  "array_copy a h = (length h, h @ [h ! a])"

definition sort_in_place :: "(real \<Rightarrow> real \<Rightarrow> jsval) \<Rightarrow> addr \<Rightarrow> store \<Rightarrow> addr \<times> store" where
  "sort_in_place comparefn a h = (a, h[a := Array_sort comparefn (h ! a)])"

definition store_getMedian :: "addr \<Rightarrow> store \<Rightarrow> jsval \<times> store" where
  "store_getMedian vals h =
     (let (copy, h1) = array_copy vals h;
          (sorted, h2) = sort_in_place numeric_ascending copy h1;
          mid = int (length (h2 ! sorted)) div 2
      in (if length (h2 ! sorted) mod 2 \<noteq> 0 then js_index (h2 ! sorted) mid
          else js_div_literal
                 (js_add (js_index (h2 ! sorted) (mid - 1)) (js_index (h2 ! sorted) mid)) 2,
          h2))"

definition store_getStdDev :: "addr \<Rightarrow> store \<Rightarrow> jsval \<times> store" where
  "store_getStdDev vals h =
     (if h ! vals = [] then (NaN, h)
      else let avg = reduce_sum (h ! vals) / real (length (h ! vals));
               variance = foldl (\<lambda>acc val. acc + (val - avg) ^ 2) 0 (h ! vals)
                            / real (length (h ! vals))
           in (Number (sqrt variance), h))"

definition store_percentile :: "addr \<Rightarrow> real \<Rightarrow> store \<Rightarrow> jsval \<times> store" where
  "store_percentile vals p h =
     (if length (h ! vals) = 0 then (NaN, h)
      else let (copy, h1) = array_copy vals h;
               (sorted, h2) = sort_in_place numeric_ascending copy h1;
               idx = real (length (h2 ! sorted) - 1) * p;
               lo = \<lfloor>idx\<rfloor>;
               hi = \<lceil>idx\<rceil>
           in (if lo = hi then js_index (h2 ! sorted) lo
               else js_add (js_index (h2 ! sorted) lo)
                      (js_mul (js_sub (js_index (h2 ! sorted) hi) (js_index (h2 ! sorted) lo))
                         (Number (idx - real_of_int lo))),
               h2))"

section \<open>Comparator\<close>

text \<open>
  One entry of the comparison: the object literal pushed by \<open>compareAllDNS\<close>
  (\<open>NetworkAnalyzer\<close>: with \<open>p95\<close> and \<open>p99\<close>), by \<open>fallbackDNSComparison\<close> and by
  \<open>processBackendBatchResults\<close> (\<open>EnhancedNetworkAnalyzer\<close>: with \<open>packetLoss\<close> and
  \<open>method\<close>). \<open>avg\<close>, \<open>min\<close> and \<open>max\<close> are numbers or \<open>null\<close> (\<open>None\<close>; the backend sends
  \<open>null\<close> for a server it never reached). A property an object does not have reads as
  \<open>undefined\<close>. \<open>info\<close>, the display record looked up in the constant table
  \<open>serverLocations\<close> (which lists every server either class probes, and has a default in
  \<open>processBackendBatchResults\<close>), is left out.
\<close>

record comparison_result =
  server :: string
  avg :: "real option"
  min_latency :: "real option"
  max_latency :: "real option"
  jitter :: real
  successRate :: real
  p95 :: jsval
  p99 :: jsval
  packetLoss :: jsval
  probe_method :: "string option"

text \<open>
  The inner loop: ten fetches against one server, each pushing a latency when the fetch
  resolved and \<open>null\<close> when it threw. \<open>fetched i\<close> is what attempt \<open>i\<close> produced.
\<close>

definition sample_server :: "(nat \<Rightarrow> real option) \<Rightarrow> real option list" where
  "sample_server fetched = map fetched [0..<10]"

definition compareAllDNS_entry :: "string \<Rightarrow> real option list \<Rightarrow> comparison_result option" where
  "compareAllDNS_entry target samples =
     (let validResults = filter_not_null samples in
      if length validResults > 0
      then Some \<lparr>server = target,
                 avg = Some (reduce_sum validResults / real (length validResults)),
                 min_latency = Some (Math_min validResults),
                 max_latency = Some (Math_max validResults),
                 jitter = calculateJitter validResults,
                 successRate = real (length validResults) / real (length samples) * 100,
                 p95 = percentile validResults 0.95,
                 p99 = percentile validResults 0.99,
                 packetLoss = Undefined,
                 probe_method = None\<rparr>
      else None)"

definition fallbackDNSComparison_entry ::
  "string \<Rightarrow> real option list \<Rightarrow> comparison_result option" where
  "fallbackDNSComparison_entry target samples =
     (let validResults = filter_not_null samples in
      if length validResults > 0
      then Some \<lparr>server = target,
                 avg = Some (reduce_sum validResults / real (length validResults)),
                 min_latency = Some (Math_min validResults),
                 max_latency = Some (Math_max validResults),
                 jitter = calculateJitter validResults,
                 successRate = real (length validResults) / real (length samples) * 100,
                 p95 = Undefined,
                 p99 = Undefined,
                 packetLoss =
                   Number (real (length samples - length validResults) / real (length samples) * 100),
                 probe_method = Some ''browser''\<rparr>
      else None)"

text \<open>The outer loop \<open>for (const server of dnsServers)\<close>, appending to \<open>results\<close>.\<close>

fun compare_loop ::
  "(string \<Rightarrow> real option list \<Rightarrow> comparison_result option) \<Rightarrow> (string \<Rightarrow> nat \<Rightarrow> real option)
     \<Rightarrow> string list \<Rightarrow> comparison_result list \<Rightarrow> comparison_result list" where
  "compare_loop entry fetched [] results = results"
| "compare_loop entry fetched (target # rest) results =
     (case entry target (sample_server (fetched target)) of
        Some r \<Rightarrow> compare_loop entry fetched rest (results @ [r])
      | None \<Rightarrow> compare_loop entry fetched rest results)"

text \<open>
  The comparison fields of an analyzer object. \<open>fetchesIssued\<close> is a ghost counter, not a
  field of the source: it counts the \<open>fetch\<close> calls the browser makes in a comparison, so
  that "no probe was sent" can be said of a call.
\<close>

record comparator =
  comparisonResults :: "comparison_result list option"
  currentSort :: string
  fetchesIssued :: nat

definition comparator_new :: comparator where
  "comparator_new = \<lparr>comparisonResults = None, currentSort = ''avg'', fetchesIssued = 0\<rparr>"

text \<open>
  \<open>r[key]\<close> as an operand of the subtraction in the sort comparator: the number for a
  numeric property, 0 for \<open>null\<close>, \<open>undefined\<close> for a missing property (the subtraction then
  yields \<open>NaN\<close>), and \<open>NaN\<close> for the string-valued \<open>server\<close> and \<open>method\<close>.
\<close>

fun null_as_zero :: "real option \<Rightarrow> real" where
  "null_as_zero (Some v) = v"
| "null_as_zero None = 0"

definition numeric_property :: "string \<Rightarrow> comparison_result \<Rightarrow> jsval" where
  "numeric_property key r =
     (if key = ''avg'' then Number (null_as_zero (avg r))
      else if key = ''min'' then Number (null_as_zero (min_latency r))
      else if key = ''max'' then Number (null_as_zero (max_latency r))
      else if key = ''jitter'' then Number (jitter r)
      else if key = ''successRate'' then Number (successRate r)
      else if key = ''p95'' then p95 r
      else if key = ''p99'' then p99 r
      else if key = ''packetLoss'' then packetLoss r
      else if key = ''server'' \<or> key = ''method'' then NaN
      else Undefined)"

definition sort_comparefn :: "string \<Rightarrow> comparison_result \<Rightarrow> comparison_result \<Rightarrow> jsval" where
  "sort_comparefn key a b =
     (if key = ''successRate'' then js_sub (numeric_property key b) (numeric_property key a)
      else js_sub (numeric_property key a) (numeric_property key b))"

text \<open>
  \<open>displayComparisonResults(results)\<close>, the same in both classes up to the third figure it
  prints: \<open>this.comparisonResults\<close> is bound to the array passed in, which is then sorted
  in place and rendered in that order (rank \<open>index + 1\<close>, winner \<open>results[0]\<close>). The
  function below is the effect on the object.
\<close>

definition displayComparisonResults :: "comparison_result list \<Rightarrow> comparator \<Rightarrow> comparator" where
  "displayComparisonResults results st =
     (if length results = 0 then st
      else st\<lparr>comparisonResults := Some (Array_sort (sort_comparefn (currentSort st)) results)\<rparr>)"

text \<open>
  After the sort, the rendering of \<open>EnhancedNetworkAnalyzer\<close> calls \<open>toFixed\<close> on \<open>avg\<close>, on
  \<open>jitter\<close> and on \<open>packetLoss\<close> of every entry, and throws a \<open>TypeError\<close> at the first
  \<open>null\<close> or \<open>undefined\<close> among them. The object has been changed by then. (In
  \<open>NetworkAnalyzer\<close> the third figure is \<open>p95\<close>; every entry that class collects has all
  three as numbers, and nothing there catches.)
\<close>

definition Enhanced_render_throws :: "comparison_result list \<Rightarrow> bool" where
  "Enhanced_render_throws results =
     (results \<noteq> [] \<and> list_ex (\<lambda>r. avg r = None \<or> packetLoss r = Undefined) results)"

text \<open>\<open>NetworkAnalyzer.sortComparison(key)\<close> sorts, then displays (which sorts again).\<close>

definition sortComparison :: "string \<Rightarrow> comparator \<Rightarrow> comparator" where
  "sortComparison key st =
     (case comparisonResults st of
        None \<Rightarrow> st
      | Some results \<Rightarrow>
          let sorted = Array_sort (sort_comparefn key) results
          in displayComparisonResults sorted
               (st\<lparr>currentSort := key, comparisonResults := Some sorted\<rparr>))"

text \<open>\<open>EnhancedNetworkAnalyzer.sortComparison(key)\<close> only displays.\<close>

definition Enhanced_sortComparison :: "string \<Rightarrow> comparator \<Rightarrow> comparator" where
  "Enhanced_sortComparison key st =
     (case comparisonResults st of
        None \<Rightarrow> st
      | Some results \<Rightarrow> displayComparisonResults results (st\<lparr>currentSort := key\<rparr>))"

text \<open>\<open>NetworkAnalyzer.compareAllDNS()\<close>, with its fixed list of servers.\<close>

definition dnsServers :: "string list" where
  "dnsServers = [''8.8.8.8'', ''1.1.1.1'', ''9.9.9.9'', ''208.67.222.222'', ''94.140.14.14'']"

definition compareAllDNS :: "(string \<Rightarrow> nat \<Rightarrow> real option) \<Rightarrow> comparator \<Rightarrow> comparator" where
  "compareAllDNS fetched st =
     displayComparisonResults (compare_loop compareAllDNS_entry fetched dnsServers [])
       (st\<lparr>fetchesIssued := fetchesIssued st + 10 * length dnsServers\<rparr>)"

text \<open>\<open>EnhancedNetworkAnalyzer.fallbackDNSComparison(dnsServers)\<close>.\<close>

definition fallbackDNSComparison ::
  "(string \<Rightarrow> nat \<Rightarrow> real option) \<Rightarrow> string list \<Rightarrow> comparator \<Rightarrow> comparator" where
  "fallbackDNSComparison fetched servers st =
     displayComparisonResults (compare_loop fallbackDNSComparison_entry fetched servers [])
       (st\<lparr>fetchesIssued := fetchesIssued st + 10 * length servers\<rparr>)"

subsection \<open>The backend batch test\<close>

text \<open>
  \<open>performHttpPing(host, count)\<close> of server.js, from the list \<open>times\<close> its loop has filled
  (a latency per resolved fetch, \<open>null\<close> per thrown one; \<open>count\<close> is its length). It
  catches every fetch error itself and returns a summary in all cases.
\<close>

record http_ping =
  alive_of :: bool
  successCount_of :: nat
  totalCount :: nat
  packetLoss_of :: real
  min_of :: "real option"
  max_of :: "real option"
  avg_of :: "real option"
  jitter_of :: real

definition performHttpPing :: "real option list \<Rightarrow> http_ping" where
  "performHttpPing timesList =
     (let validTimes = filter_not_null timesList;
          reached = length validTimes;
          probes = length timesList
      in \<lparr>alive_of = (reached > 0),
          successCount_of = reached,
          totalCount = probes,
          packetLoss_of = real (probes - reached) / real probes * 100,
          min_of = (if length validTimes > 0 then Some (Math_min validTimes) else None),
          max_of = (if length validTimes > 0 then Some (Math_max validTimes) else None),
          avg_of = (if length validTimes > 0
                    then Some (reduce_sum validTimes / real (length validTimes)) else None),
          jitter_of = server_calculateJitter (Some (map Some validTimes))\<rparr>)"

text \<open>
  One element of the \<open>results\<close> array of \<open>/api/batch-test\<close>: \<open>{server, success: true,
  ...pingResult}\<close>, or \<open>{server, success: false, error}\<close> when \<open>performHttpPing\<close> itself threw.
  \<open>batch_test\<close> is the array the endpoint builds for a list of servers.
\<close>

datatype batch_result = PingResult_of string http_ping | PingError string

definition batch_test ::
  "(string \<Rightarrow> nat \<Rightarrow> real option) \<Rightarrow> string list \<Rightarrow> nat \<Rightarrow> batch_result list" where
  "batch_test fetched servers testsPerServer =
     map (\<lambda>target. PingResult_of target (performHttpPing (map (fetched target) [0..<testsPerServer])))
       servers"

text \<open>
  \<open>processBackendBatchResults(results)\<close>: only an element with \<open>success: false\<close> is dropped.
\<close>

fun backend_entry :: "batch_result \<Rightarrow> comparison_result option" where
  "backend_entry (PingError target) = None"
| "backend_entry (PingResult_of target result) =
     Some \<lparr>server = target,
           avg = avg_of result,
           min_latency = min_of result,
           max_latency = max_of result,
           jitter = jitter_of result,
           successRate = real (successCount_of result) / real (totalCount result) * 100,
           p95 = Undefined,
           p99 = Undefined,
           packetLoss = Number (packetLoss_of result),
           probe_method = Some ''backend''\<rparr>"

definition processedResults :: "batch_result list \<Rightarrow> comparison_result list" where
  "processedResults results = filter_not_null (map backend_entry results)"

definition processBackendBatchResults :: "batch_result list \<Rightarrow> comparator \<Rightarrow> comparator" where
  "processBackendBatchResults results st =
     displayComparisonResults (processedResults results) st"

text \<open>
  \<open>EnhancedNetworkAnalyzer.compareAllDNS()\<close>. With \<open>useBackend\<close> it posts its servers to
  \<open>/api/batch-test\<close>; the answer is the \<open>results\<close> array, or none (the request failed or the
  status was bad). An exception in the \<open>try\<close>, which includes one thrown while
  \<open>processBackendBatchResults\<close> renders, is caught and the browser loop runs instead.
\<close>

definition Enhanced_dnsServers :: "string list" where
  "Enhanced_dnsServers =
     [''8.8.8.8'', ''1.1.1.1'', ''9.9.9.9'', ''208.67.222.222'', ''94.140.14.14'',
      ''76.76.19.19'', ''185.228.168.9'']"

definition Enhanced_compareAllDNS ::
  "bool \<Rightarrow> batch_result list option \<Rightarrow> (string \<Rightarrow> nat \<Rightarrow> real option) \<Rightarrow> comparator \<Rightarrow> comparator" where
  "Enhanced_compareAllDNS backend answer fetched st =
     (if backend
      then (case answer of
              None \<Rightarrow>
                fallbackDNSComparison fetched Enhanced_dnsServers
                  (st\<lparr>fetchesIssued := fetchesIssued st + 1\<rparr>)
            | Some results \<Rightarrow>
                let st1 = processBackendBatchResults results
                            (st\<lparr>fetchesIssued := fetchesIssued st + 1\<rparr>)
                in if Enhanced_render_throws (processedResults results)
                   then fallbackDNSComparison fetched Enhanced_dnsServers st1
                   else st1)
      else fallbackDNSComparison fetched Enhanced_dnsServers st)"

text \<open>
  The number of targets of a comparison whose ten samples hold no latency: what an
  exclusion report would have to carry.
\<close>

definition excluded_count :: "(string \<Rightarrow> nat \<Rightarrow> real option) \<Rightarrow> string list \<Rightarrow> nat" where
  "excluded_count fetched servers =
     length (filter (\<lambda>target. filter_not_null (sample_server (fetched target)) = []) servers)"


section \<open>Notions used to state the properties\<close>

text \<open>The counter invariant of a run state.\<close>

definition counts_match :: "analyzer \<Rightarrow> bool" where
  "counts_match st \<longleftrightarrow> successCount st + failCount st = length (testResults st)"

text \<open>
  \<open>the_number\<close> reads a property that is a number. \<open>rank_key\<close> is the number a result is
  ranked by under a sort key: its property, negated for \<open>successRate\<close> (higher is better).
\<close>

fun the_number :: "jsval \<Rightarrow> real" where
  "the_number (Number v) = v"

definition rank_key :: "string \<Rightarrow> comparison_result \<Rightarrow> real" where
  "rank_key key r =
     (if key = ''successRate'' then - successRate r else the_number (numeric_property key r))"

text \<open>Three probes of a run that are rejected at or after a timeout of 5000 ms.\<close>

definition three_timeouts :: "probe list" where
  "three_timeouts =
     [Probe (Rejected AbortError) 5000, Probe (Rejected AbortError) 5001,
      Probe (Rejected TypeError) 6000]"

text \<open>
  A transport stub for two targets: every fetch to \<open>1.1.1.1\<close> resolves after 20 ms, every
  other fetch throws.
\<close>

definition one_up_one_down :: "string \<Rightarrow> nat \<Rightarrow> real option" where
  "one_up_one_down target i = (if target = ''1.1.1.1'' then Some 20 else None)"

text \<open>
  Three results as \<open>compareAllDNS\<close> builds them and three as \<open>fallbackDNSComparison\<close> builds
  them, in the order they were collected. No two sort keys rank the first three alike,
  and none leaves either list in the order it has.
\<close>

definition example_results :: "comparison_result list" where
  "example_results =
     [\<lparr>server = ''8.8.8.8'', avg = Some 30, min_latency = Some 25, max_latency = Some 40,
       jitter = 5, successRate = 100, p95 = Number 39, p99 = Number 40, packetLoss = Undefined,
       probe_method = None\<rparr>,
      \<lparr>server = ''1.1.1.1'', avg = Some 20, min_latency = Some 12, max_latency = Some 45,
       jitter = 8, successRate = 90, p95 = Number 35, p99 = Number 45, packetLoss = Undefined,
       probe_method = None\<rparr>,
      \<lparr>server = ''9.9.9.9'', avg = Some 25, min_latency = Some 20, max_latency = Some 50,
       jitter = 2, successRate = 80, p95 = Number 48, p99 = Number 50, packetLoss = Undefined,
       probe_method = None\<rparr>]"

definition Enhanced_example_results :: "comparison_result list" where
  "Enhanced_example_results =
     [\<lparr>server = ''8.8.8.8'', avg = Some 30, min_latency = Some 25, max_latency = Some 40,
       jitter = 5, successRate = 80, p95 = Undefined, p99 = Undefined, packetLoss = Number 20,
       probe_method = Some ''browser''\<rparr>,
      \<lparr>server = ''1.1.1.1'', avg = Some 20, min_latency = Some 12, max_latency = Some 45,
       jitter = 8, successRate = 100, p95 = Undefined, p99 = Undefined, packetLoss = Number 0,
       probe_method = Some ''browser''\<rparr>,
      \<lparr>server = ''9.9.9.9'', avg = Some 25, min_latency = Some 20, max_latency = Some 50,
       jitter = 2, successRate = 90, p95 = Undefined, p99 = Undefined, packetLoss = Number 10,
       probe_method = Some ''browser''\<rparr>]"



section \<open>Properties of the statistics engine\<close>

lemma js_insert_numeric: "js_insert numeric_ascending x ys = insort x ys"
  by (induction ys) (simp_all add: numeric_ascending_def)

lemma Array_sort_numeric: "Array_sort numeric_ascending xs = sort xs"
  by (induction xs) (simp_all add: Array_sort_def js_insert_numeric)

lemma foldl_plus_sum_list: "foldl (\<lambda>a b. a + b) a xs = a + sum_list (xs :: real list)"
  by (induction xs arbitrary: a) simp_all

lemma reduce_sum_sum_list: "reduce_sum xs = sum_list xs"
  by (simp add: reduce_sum_def foldl_plus_sum_list)

lemma filter_not_null_length: "length (filter_not_null ts) \<le> length ts"
  by (simp add: filter_not_null_def)

text \<open>The loop appends the absolute differences of the positions it has yet to visit.\<close>

lemma differences_loop_map:
  "differences_loop vals i acc =
     acc @ map (\<lambda>j. \<bar>vals ! j - vals ! (j - 1)\<bar>) [i..<length vals]"
proof (induction vals i acc rule: differences_loop.induct)
  case (1 vals i differences)
  show ?case
  proof (cases "i < length vals")
    case True
    then have "[i..<length vals] = i # [i + 1..<length vals]"
      by (simp add: upt_conv_Cons)
    with True "1.IH" show ?thesis
      by (subst differences_loop.simps) simp
  next
    case False
    then show ?thesis
      by (subst differences_loop.simps) simp
  qed
qed

lemma calculateJitter_sum:
  "calculateJitter S =
     (if length S < 2 then 0
      else (\<Sum>i = 1..<length S. \<bar>S ! i - S ! (i - 1)\<bar>) / real (length S - 1))"
  by (simp add: calculateJitter_def differences_loop_map reduce_sum_sum_list
      interv_sum_list_conv_sum_set_nat Let_def)

lemma server_calculateJitter_filtered:
  "server_calculateJitter (Some ts) = calculateJitter (filter_not_null ts)"
proof (cases "length ts < 2")
  case True
  then have "length (filter_not_null ts) < 2"
    using filter_not_null_length [of ts] by linarith
  with True show ?thesis
    by (simp add: server_calculateJitter_def calculateJitter_def)
next
  case False
  then show ?thesis
    by (simp add: server_calculateJitter_def calculateJitter_def Let_def)
qed

text \<open>
  C3. For every list \<open>S\<close> of latencies, \<open>calculateJitter S\<close> is 0 when \<open>S\<close> has fewer than two
  elements and otherwise the mean of \<open>|S[i] - S[i-1]|\<close> over \<open>i = 1 .. |S|-1\<close>, taken in the
  order of the list. The backend's function is the same function after dropping the
  \<open>null\<close> entries. On \<open>[10, 50, 10]\<close> the jitter is 40; on the same samples sorted it
  would be 20.
\<close>

theorem jitter_arrival_order:
  "calculateJitter S =
     (if length S < 2 then 0
      else (\<Sum>i = 1..<length S. \<bar>S ! i - S ! (i - 1)\<bar>) / real (length S - 1))
   \<and> server_calculateJitter (Some ts) = calculateJitter (filter_not_null ts)
   \<and> calculateJitter [10, 50, 10] = 40
   \<and> calculateJitter (sort [10, 50, 10]) = 20"
proof -
  have a: "calculateJitter [10, 50, 10] = 40" by code_simp
  have b: "calculateJitter (sort [10, 50, 10]) = 20" by code_simp
  from a b show ?thesis
    using calculateJitter_sum [of S] server_calculateJitter_filtered [of ts] by blast
qed

text \<open>For a fraction \<open>p\<close> of a non-empty list both interpolation indices are inside it.\<close>

lemma percentile_index_bounds:
  assumes "S \<noteq> []" "0 \<le> p" "p \<le> 1"
  defines "idx \<equiv> real (length S - 1) * p"
  shows "0 \<le> \<lfloor>idx\<rfloor>" "\<lfloor>idx\<rfloor> \<le> \<lceil>idx\<rceil>" "\<lceil>idx\<rceil> < int (length S)"
proof -
  have n: "0 < length S" using assms(1) by simp
  have i0: "0 \<le> idx" unfolding idx_def using assms(2) by simp
  have "idx \<le> real (length S - 1) * 1"
    unfolding idx_def using assms(3) by (intro mult_left_mono) simp_all
  then have i1: "idx \<le> real_of_int (int (length S) - 1)" using n by (simp add: of_nat_diff)
  show "0 \<le> \<lfloor>idx\<rfloor>" using i0 by simp
  show "\<lfloor>idx\<rfloor> \<le> \<lceil>idx\<rceil>" by (simp add: floor_le_ceiling)
  have "\<lceil>idx\<rceil> \<le> \<lceil>real_of_int (int (length S) - 1)\<rceil>"
    by (rule ceiling_mono [OF i1])
  then have "\<lceil>idx\<rceil> \<le> int (length S) - 1"
    by (simp only: ceiling_of_int)
  then show "\<lceil>idx\<rceil> < int (length S)" by simp
qed

lemma percentile_interpolates:
  assumes "S \<noteq> []" "0 \<le> p" "p \<le> 1"
  shows "percentile S p =
     Number (sort S ! nat \<lfloor>real (length S - 1) * p\<rfloor>
       + (sort S ! nat \<lceil>real (length S - 1) * p\<rceil> - sort S ! nat \<lfloor>real (length S - 1) * p\<rfloor>)
         * (real (length S - 1) * p - real_of_int \<lfloor>real (length S - 1) * p\<rfloor>))"
proof -
  let ?idx = "real (length S - 1) * p"
  note b = percentile_index_bounds [OF assms]
  have "\<lfloor>?idx\<rfloor> < int (length S)"
    using b(2,3) by linarith
  then have lo: "js_index (sort S) \<lfloor>?idx\<rfloor> = Number (sort S ! nat \<lfloor>?idx\<rfloor>)"
    using b(1) by (simp add: js_index_def)
  have "0 \<le> \<lceil>?idx\<rceil>"
    using b(1,2) by linarith
  then have hi: "js_index (sort S) \<lceil>?idx\<rceil> = Number (sort S ! nat \<lceil>?idx\<rceil>)"
    using b(3) by (simp add: js_index_def)
  show ?thesis
  proof (cases "\<lfloor>?idx\<rfloor> = \<lceil>?idx\<rceil>")
    case True
    with lo assms(1) show ?thesis
      by (simp add: percentile_def Array_sort_numeric Let_def)
  next
    case False
    with lo hi assms(1) show ?thesis
      by (simp add: percentile_def Array_sort_numeric Let_def)
  qed
qed

text \<open>
  C4. For every non-empty list \<open>S\<close> and every \<open>p\<close> in \<open>[0, 1]\<close>, \<open>percentile S p\<close> is a number:
  with \<open>idx = (|S| - 1) * p\<close> on the ascending sort of \<open>S\<close>, it is the element at
  \<open>floor idx\<close> plus the fraction \<open>idx - floor idx\<close> of the step to the element at
  \<open>ceil idx\<close>, and both positions are inside the list. \<open>percentile [10,20,30,40] 0.5\<close> is 25
  and \<open>percentile [10] 0.95\<close> is 10.
\<close>

theorem percentile_linear_interpolation:
  assumes "S \<noteq> []" "0 \<le> p" "p \<le> 1"
  shows "nat \<lfloor>real (length S - 1) * p\<rfloor> \<le> nat \<lceil>real (length S - 1) * p\<rceil>
     \<and> nat \<lceil>real (length S - 1) * p\<rceil> < length S
     \<and> percentile S p =
         Number (sort S ! nat \<lfloor>real (length S - 1) * p\<rfloor>
           + (sort S ! nat \<lceil>real (length S - 1) * p\<rceil>
                - sort S ! nat \<lfloor>real (length S - 1) * p\<rfloor>)
             * (real (length S - 1) * p - real_of_int \<lfloor>real (length S - 1) * p\<rfloor>))
     \<and> percentile [10, 20, 30, 40] 0.5 = Number 25
     \<and> percentile [10] 0.95 = Number 10"
proof -
  note b = percentile_index_bounds [OF assms]
  have 1: "nat \<lfloor>real (length S - 1) * p\<rfloor> \<le> nat \<lceil>real (length S - 1) * p\<rceil>"
    using b(2) by linarith
  have 2: "nat \<lceil>real (length S - 1) * p\<rceil> < length S"
    using b(1,2,3) by linarith
  have 3: "percentile [10, 20, 30, 40] 0.5 = Number 25" by code_simp
  have 4: "percentile [10] 0.95 = Number 10" by code_simp
  from 1 2 3 4 percentile_interpolates [OF assms] show ?thesis by blast
qed

text \<open>The theorem at \<open>S = [10, 20, 30, 40]\<close>, \<open>p = 1/2\<close>: index 1.5, between 20 and 30.\<close>

theorem percentile_linear_interpolation_witness:
  "[10, 20, 30, 40 :: real] \<noteq> [] \<and> (0 :: real) \<le> 1 / 2 \<and> (1 / 2 :: real) \<le> 1
   \<and> percentile [10, 20, 30, 40] (1 / 2) = Number (20 + (30 - 20) * (3 / 2 - 1))"
  using percentile_linear_interpolation [of "[10, 20, 30, 40]" "1 / 2"] by simp


lemma sort_nth_between:
  assumes "k < length S"
  shows "Min (set S) \<le> sort S ! k" "sort S ! k \<le> Max (set S)"
proof -
  have "sort S ! k \<in> set (sort S)"
    using assms by (intro nth_mem) simp
  then have m: "sort S ! k \<in> set S" by simp
  show "Min (set S) \<le> sort S ! k" using m by (intro Min_le) simp_all
  show "sort S ! k \<le> Max (set S)" using m by (intro Max_ge) simp_all
qed

lemma getMedian_odd:
  assumes "odd (length S)"
  shows "getMedian S = Number (sort S ! (length S div 2))"
proof -
  have "length S div 2 < length S" using assms by (cases S) auto
  moreover have "int (length S) div 2 = int (length S div 2)" by simp
  ultimately have "js_index (sort S) (int (length S) div 2) = Number (sort S ! (length S div 2))"
    by (simp only: js_index_def) simp
  with assms show ?thesis
    by (simp add: getMedian_def Array_sort_numeric Let_def odd_iff_mod_2_eq_one)
qed

lemma getMedian_even:
  assumes "S \<noteq> []" "even (length S)"
  shows "getMedian S = Number ((sort S ! (length S div 2 - 1) + sort S ! (length S div 2)) / 2)"
proof -
  have "length S \<noteq> 0" using assms(1) by simp
  moreover have "length S \<noteq> 1" using assms(2) by auto
  ultimately have n: "2 \<le> length S" by linarith
  then have m: "0 < length S div 2" "length S div 2 < length S" by auto
  have i: "int (length S) div 2 = int (length S div 2)" by simp
  have a: "js_index (sort S) (int (length S) div 2) = Number (sort S ! (length S div 2))"
    unfolding i using m by (simp add: js_index_def)
  have j: "nat (int (length S div 2) - 1) = length S div 2 - 1" by linarith
  have b: "js_index (sort S) (int (length S) div 2 - 1) = Number (sort S ! (length S div 2 - 1))"
    unfolding i using m by (simp add: js_index_def j)
  from assms(2) a b show ?thesis
    by (simp add: getMedian_def Array_sort_numeric Let_def)
qed

text \<open>
  C8. For every non-empty list \<open>S\<close>, \<open>getMedian S\<close> is a number: the middle element of the
  ascending sort of \<open>S\<close> when the length is odd, the average of the two middle elements
  when it is even; and it lies between \<open>Math.min(...S)\<close> and \<open>Math.max(...S)\<close>.
\<close>

theorem median_between_min_and_max:
  assumes "S \<noteq> []"
  shows "getMedian S =
           Number (if odd (length S) then sort S ! (length S div 2)
                   else (sort S ! (length S div 2 - 1) + sort S ! (length S div 2)) / 2)
     \<and> Math_min S \<le> (if odd (length S) then sort S ! (length S div 2)
                     else (sort S ! (length S div 2 - 1) + sort S ! (length S div 2)) / 2)
     \<and> (if odd (length S) then sort S ! (length S div 2)
         else (sort S ! (length S div 2 - 1) + sort S ! (length S div 2)) / 2) \<le> Math_max S"
proof (cases "odd (length S)")
  case True
  have "length S div 2 < length S" using assms by simp
  from sort_nth_between [OF this] getMedian_odd [OF True] True show ?thesis
    by (simp add: Math_min_def Math_max_def)
next
  case False
  then have e: "even (length S)" by simp
  have "0 < length S" using assms by simp
  then have k: "length S div 2 < length S" "length S div 2 - 1 < length S" by linarith+
  from sort_nth_between [OF k(1)] sort_nth_between [OF k(2)]
  have "Min (set S) \<le> (sort S ! (length S div 2 - 1) + sort S ! (length S div 2)) / 2"
       "(sort S ! (length S div 2 - 1) + sort S ! (length S div 2)) / 2 \<le> Max (set S)"
    by (simp_all add: field_simps)
  with getMedian_even [OF assms e] e show ?thesis
    by (simp add: Math_min_def Math_max_def)
qed

text \<open>The theorem at \<open>S = [30, 10, 40, 20]\<close>: median 25, between 10 and 40.\<close>

theorem median_between_min_and_max_witness:
  "[30, 10, 40, 20 :: real] \<noteq> [] \<and> getMedian [30, 10, 40, 20] = Number 25
   \<and> Math_min [30, 10, 40, 20] \<le> 25 \<and> 25 \<le> Math_max [30, 10, 40, 20]"
  using median_between_min_and_max [of "[30, 10, 40, 20]"] by simp

text \<open>
  On the store, each statistic returns what the list function returns; \<open>getMedian\<close> and
  \<open>percentile\<close> leave one new array behind (the sorted copy), \<open>getStdDev\<close> none.
\<close>

lemma store_getMedian_eq:
  "store_getMedian a h = (getMedian (h ! a), h @ [Array_sort numeric_ascending (h ! a)])"
  by (simp add: store_getMedian_def getMedian_def array_copy_def sort_in_place_def Let_def)

lemma store_percentile_eq:
  "store_percentile a p h =
     (percentile (h ! a) p,
      if h ! a = [] then h else h @ [Array_sort numeric_ascending (h ! a)])"
  by (simp add: store_percentile_def percentile_def array_copy_def sort_in_place_def Let_def)

lemma store_getStdDev_eq: "store_getStdDev a h = (getStdDev (h ! a), h)"
  by (simp add: store_getStdDev_def getStdDev_def Let_def)

text \<open>
  C10. \<open>getMedian\<close>, \<open>percentile\<close> and \<open>getStdDev\<close> do not change the array they are given:
  for every store and every address in it, the array at that address is the same after
  the call, element for element, and so is every other array that existed before the
  call (the only write goes to a freshly allocated copy).
\<close>

theorem statistics_leave_input_unchanged:
  assumes "a < length h"
  shows "snd (store_getMedian a h) ! a = h ! a
     \<and> snd (store_percentile a p h) ! a = h ! a
     \<and> snd (store_getStdDev a h) ! a = h ! a
     \<and> take (length h) (snd (store_getMedian a h)) = h
     \<and> take (length h) (snd (store_percentile a p h)) = h
     \<and> snd (store_getStdDev a h) = h
     \<and> fst (store_getMedian a h) = getMedian (h ! a)
     \<and> fst (store_percentile a p h) = percentile (h ! a) p
     \<and> fst (store_getStdDev a h) = getStdDev (h ! a)"
  using assms
  by (simp add: store_getMedian_eq store_percentile_eq store_getStdDev_eq nth_append)

text \<open>The theorem on a store holding the one array \<open>[30, 10, 20]\<close>.\<close>

theorem statistics_leave_input_unchanged_witness:
  "(0 :: nat) < length [[30, 10, 20 :: real]]
   \<and> store_getMedian 0 [[30, 10, 20]] = (Number 20, [[30, 10, 20], [10, 20, 30]])
   \<and> snd (store_percentile 0 (1 / 2) [[30, 10, 20]]) ! 0 = [30, 10, 20]
   \<and> snd (store_getStdDev 0 [[30, 10, 20]]) ! 0 = [30, 10, 20]"
proof -
  have m: "store_getMedian 0 [[30, 10, 20]] = (Number 20, [[30, 10, 20], [10, 20, 30]])"
    by (simp add: store_getMedian_eq getMedian_def Array_sort_def numeric_ascending_def js_index_def)
  from statistics_leave_input_unchanged [of 0 "[[30, 10, 20]]" "1 / 2"] m
  show ?thesis by simp
qed




section \<open>Properties of the quality scorer\<close>






text \<open>
  The rounding at some known doubles: the literals of the formula, a third, and two
  integers that lie half-way between neighbouring doubles (ties go to the even one).
\<close>

lemma binary64_examples:
  "binary64 (1 / 10) = 3602879701896397 / 36028797018963968"
  "binary64 (6 / 10) = 5404319552844595 / 9007199254740992"
  "binary64 (15 / 100) = 5404319552844595 / 36028797018963968"
  "binary64 (25 / 100) = 1 / 4"
  "binary64 (1 / 3) = 6004799503160661 / 18014398509481984"
  "binary64 (9007199254740993) = 9007199254740992"
  "binary64 (9007199254740995) = 9007199254740996"
  "binary64 (- (1 / 10)) = - (3602879701896397 / 36028797018963968)"
  by code_simp+





text \<open>
  C9. When the run state holds no successful sample, \<open>calculateQualityScore\<close> returns
  exactly 0, whatever the counters are: it is a number (no \<open>NaN\<close>, no error), and it is
  not the 85 that the formula gives for no latency, no jitter and full loss.
\<close>

theorem no_success_scores_zero:
  assumes "filter_not_null (testResults st) = []"
  shows "calculateQualityScore st = Number 0
     \<and> calculateQualityScore st \<noteq> NaN
     \<and> qualityFormula 0 0 100 = 85
     \<and> calculateQualityScore st \<noteq> Number (real_of_int (qualityFormula 0 0 100))"
proof -
  have "qualityFormula 0 0 100 = 85"
    by code_simp
  with assms show ?thesis
    by (simp add: calculateQualityScore_def)
qed

text \<open>The theorem on a run of three probes that all fail at or after the timeout.\<close>

theorem no_success_scores_zero_witness:
  "filter_not_null (testResults (run 5000 three_timeouts NetworkAnalyzer_new)) = []
   \<and> failCount (run 5000 three_timeouts NetworkAnalyzer_new) = 3
   \<and> calculateQualityScore (run 5000 three_timeouts NetworkAnalyzer_new) = Number 0"
proof -
  have r: "run 5000 three_timeouts NetworkAnalyzer_new =
      \<lparr>testResults = [None, None, None], testCount = 3, successCount = 0, failCount = 3,
       chartData = [], maxDataPoints = 30, useBackend = False\<rparr>"
    by (simp add: run_def three_timeouts_def startTest_reset_def NetworkAnalyzer_new_def
        performSingleTest_def measureLatency_def settle_def record_failure_def)
  have e: "filter_not_null (testResults (run 5000 three_timeouts NetworkAnalyzer_new)) = []"
    unfolding r by (simp add: filter_not_null_def)
  from no_success_scores_zero [OF e] e show ?thesis
    unfolding r by simp
qed


section \<open>Properties of the prober\<close>

text \<open>
  C2, as stated, fails: a request that is rejected 12 ms after it was sent, under a
  timeout of 5000 ms, makes \<open>measureLatency\<close> return 12, and \<open>performSingleTest\<close> records
  it as a successful sample.
\<close>

theorem failed_request_yields_latency:
  "measureLatency 5000 (Rejected TypeError) 12 = Inr 12
   \<and> testResults (performSingleTest 5000 (Rejected TypeError) 12 NetworkAnalyzer_new) = [Some (Number 12)]
   \<and> successCount (performSingleTest 5000 (Rejected TypeError) 12 NetworkAnalyzer_new) = 1
   \<and> failCount (performSingleTest 5000 (Rejected TypeError) 12 NetworkAnalyzer_new) = 0"
  by (simp add: measureLatency_def performSingleTest_def settle_def record_success_def
      NetworkAnalyzer_new_def Let_def)

text \<open>
  C2, amended. \<open>measureLatency\<close> reports a failure exactly when the request was rejected
  and the elapsed time has reached the timeout; in every other case (the request
  resolved, or it was rejected before the timeout) it returns the elapsed time as the
  latency. A probe reported as a failure is recorded as a \<open>null\<close> sample carrying no
  latency and leaves the list of successful latencies, over which all statistics are
  computed, as it was; a returned latency is recorded as one successful sample.
\<close>

theorem failure_only_at_timeout:
  "(measureLatency timeout outcome elapsed = Inl e
      \<longleftrightarrow> outcome = Rejected e \<and> timeout \<le> elapsed)
   \<and> (measureLatency timeout outcome elapsed = Inr latency
      \<longleftrightarrow> latency = elapsed \<and> (outcome = Resolved \<or> elapsed < timeout))
   \<and> (measureLatency timeout outcome elapsed = Inl e \<longrightarrow>
        testResults (performSingleTest timeout outcome elapsed st) = testResults st @ [None]
        \<and> failCount (performSingleTest timeout outcome elapsed st) = failCount st + 1
        \<and> successCount (performSingleTest timeout outcome elapsed st) = successCount st
        \<and> filter_not_null (testResults (performSingleTest timeout outcome elapsed st))
            = filter_not_null (testResults st))
   \<and> (measureLatency timeout outcome elapsed = Inr latency \<longrightarrow>
        testResults (performSingleTest timeout outcome elapsed st) = testResults st @ [Some (Number latency)]
        \<and> successCount (performSingleTest timeout outcome elapsed st) = successCount st + 1
        \<and> failCount (performSingleTest timeout outcome elapsed st) = failCount st)"
proof -
  have 1: "measureLatency timeout outcome elapsed = Inl e
      \<longleftrightarrow> outcome = Rejected e \<and> timeout \<le> elapsed"
    by (cases outcome) (auto simp: measureLatency_def)
  have 2: "measureLatency timeout outcome elapsed = Inr latency
      \<longleftrightarrow> latency = elapsed \<and> (outcome = Resolved \<or> elapsed < timeout)"
    by (cases outcome) (auto simp: measureLatency_def)
  have 3: "measureLatency timeout outcome elapsed = Inl e \<longrightarrow>
        testResults (performSingleTest timeout outcome elapsed st) = testResults st @ [None]
        \<and> failCount (performSingleTest timeout outcome elapsed st) = failCount st + 1
        \<and> successCount (performSingleTest timeout outcome elapsed st) = successCount st
        \<and> filter_not_null (testResults (performSingleTest timeout outcome elapsed st))
            = filter_not_null (testResults st)"
    by (simp add: performSingleTest_def settle_def record_failure_def filter_not_null_def)
  have 4: "measureLatency timeout outcome elapsed = Inr latency \<longrightarrow>
        testResults (performSingleTest timeout outcome elapsed st) = testResults st @ [Some (Number latency)]
        \<and> successCount (performSingleTest timeout outcome elapsed st) = successCount st + 1
        \<and> failCount (performSingleTest timeout outcome elapsed st) = failCount st"
    by (simp add: performSingleTest_def settle_def record_success_def Let_def)
  from 1 2 3 4 show ?thesis by blast
qed

text \<open>The theorem at an abort after 5003 ms and at a request resolved after 20 ms.\<close>

theorem failure_only_at_timeout_witness:
  "measureLatency 5000 (Rejected AbortError) 5003 = Inl AbortError
   \<and> testResults (performSingleTest 5000 (Rejected AbortError) 5003 NetworkAnalyzer_new) = [None]
   \<and> filter_not_null (testResults (performSingleTest 5000 (Rejected AbortError) 5003 NetworkAnalyzer_new)) = []
   \<and> measureLatency 5000 Resolved 20 = Inr 20
   \<and> testResults (performSingleTest 5000 Resolved 20 NetworkAnalyzer_new) = [Some (Number 20)]"
  using failure_only_at_timeout [of 5000 "Rejected AbortError" 5003 AbortError 5003 NetworkAnalyzer_new]
    failure_only_at_timeout [of 5000 Resolved 20 AbortError 20 NetworkAnalyzer_new]
  by (simp add: NetworkAnalyzer_new_def filter_not_null_def)

section \<open>Properties of the sampler\<close>

lemma record_success_fields:
  "successCount (record_success x latency st) = successCount st + 1"
  "failCount (record_success x latency st) = failCount st"
  "testResults (record_success x latency st) = testResults st @ [Some latency]"
  "testCount (record_success x latency st) = testCount st"
  by (simp_all add: record_success_def Let_def)

lemma record_failure_fields:
  "successCount (record_failure st) = successCount st"
  "failCount (record_failure st) = failCount st + 1"
  "testResults (record_failure st) = testResults st @ [None]"
  "testCount (record_failure st) = testCount st"
  by (simp_all add: record_failure_def)

lemma settle_counts_match: "counts_match st \<Longrightarrow> counts_match (settle measured st)"
  by (auto simp: counts_match_def settle_def record_success_fields record_failure_fields
      split: sum.splits option.splits jsval.splits)

lemma counts_match_testCount_update:
  "counts_match (st\<lparr>testCount := n\<rparr>) = counts_match st"
  by (simp add: counts_match_def)

lemma performSingleTest_counts_match:
  "counts_match st \<Longrightarrow> counts_match (performSingleTest timeout outcome elapsed st)"
  by (simp add: performSingleTest_def settle_counts_match counts_match_testCount_update)

text \<open>
  In \<open>NetworkAnalyzer\<close> every probe appends one sample and increments one counter, so
  after a run the counters add up to the number of samples, which is the number of
  probes.
\<close>

lemma performSingleTest_one_sample:
  "length (testResults (performSingleTest timeout outcome elapsed st)) = length (testResults st) + 1
   \<and> testCount (performSingleTest timeout outcome elapsed st) = testCount st + 1
   \<and> successCount (performSingleTest timeout outcome elapsed st)
       + failCount (performSingleTest timeout outcome elapsed st)
       = successCount st + failCount st + 1"
  by (cases "measureLatency timeout outcome elapsed")
     (simp_all add: performSingleTest_def settle_def record_success_fields record_failure_fields)

lemma foldl_run_probe_counts:
  "length (testResults (foldl (run_probe timeout) st probes)) = length (testResults st) + length probes
   \<and> testCount (foldl (run_probe timeout) st probes) = testCount st + length probes
   \<and> successCount (foldl (run_probe timeout) st probes) + failCount (foldl (run_probe timeout) st probes)
       = successCount st + failCount st + length probes"
proof (induction probes arbitrary: st)
  case Nil
  then show ?case by simp
next
  case (Cons p probes)
  obtain outcome elapsed where p: "p = Probe outcome elapsed" by (cases p)
  show ?case
    using Cons.IH [of "performSingleTest timeout outcome elapsed st"]
      performSingleTest_one_sample [of timeout outcome elapsed st]
    by (simp add: p)
qed

lemma run_counts:
  "successCount (run timeout probes st) + failCount (run timeout probes st)
     = length (testResults (run timeout probes st))
   \<and> length (testResults (run timeout probes st)) = length probes
   \<and> testCount (run timeout probes st) = length probes"
  using foldl_run_probe_counts [of timeout "startTest_reset st" probes]
  by (simp add: run_def startTest_reset_def)

text \<open>
  In \<open>EnhancedNetworkAnalyzer\<close> the sum of the counters still equals the number of
  samples after any sequence of probes and WebSocket messages.
\<close>

lemma enhanced_step_counts_match:
  "counts_match st \<Longrightarrow> counts_match (enhanced_step timeout st ev)"
proof (cases ev)
  case (SingleTest response outcome elapsed)
  assume "counts_match st"
  then show ?thesis
    by (simp add: SingleTest Enhanced_performSingleTest_def settle_counts_match
        counts_match_testCount_update)
next
  case (MonitoringUpdate alive time)
  assume "counts_match st"
  then show ?thesis
    by (simp add: MonitoringUpdate handleMonitoringUpdate_def counts_match_def
        record_success_fields record_failure_fields)
next
  case (PingResult alive time)
  assume "counts_match st"
  then show ?thesis
    by (simp add: PingResult handlePingResult_def counts_match_def record_failure_fields)
qed

lemma foldl_enhanced_counts_match:
  "counts_match st \<Longrightarrow> counts_match (foldl (enhanced_step timeout) st events)"
  by (induction events arbitrary: st) (simp_all add: enhanced_step_counts_match)

lemma enhanced_run_counts_match: "counts_match (enhanced_run timeout events st)"
  unfolding enhanced_run_def
  by (rule foldl_enhanced_counts_match) (simp add: counts_match_def startTest_reset_def)

text \<open>
  A probe that the backend answers from its HTTP fallback, with \<open>alive: true\<close> and no
  \<open>time\<close>, is recorded twice: as a success holding \<open>undefined\<close> and, after the throw, as a
  failure.
\<close>

lemma enhanced_undefined_latency_recorded_twice:
  "testCount (Enhanced_performSingleTest (BodyWithoutTime True) 5000 Resolved 0 EnhancedNetworkAnalyzer_new) = 1
   \<and> testResults (Enhanced_performSingleTest (BodyWithoutTime True) 5000 Resolved 0 EnhancedNetworkAnalyzer_new)
       = [Some Undefined, None]
   \<and> successCount (Enhanced_performSingleTest (BodyWithoutTime True) 5000 Resolved 0 EnhancedNetworkAnalyzer_new) = 1
   \<and> failCount (Enhanced_performSingleTest (BodyWithoutTime True) 5000 Resolved 0 EnhancedNetworkAnalyzer_new) = 1"
  by (simp add: Enhanced_performSingleTest_def backendPing_def settle_def
      EnhancedNetworkAnalyzer_new_def record_failure_def record_success_def Let_def)

text \<open>
  C5 asks that every probe attempt appends exactly one sample and increments exactly one
  of \<open>successCount\<close> and \<open>failCount\<close>. In \<open>EnhancedNetworkAnalyzer\<close> a probe that the backend
  answers with \<open>alive: false\<close> does neither: \<open>backendPing\<close> returns \<open>null\<close>, the branch
  \<open>latency !== null\<close> is skipped and nothing is thrown, so after the first probe of a run
  \<open>testCount\<close> is 1 while the sample list is empty and both counters are 0. The WebSocket
  handler \<open>handlePingResult\<close> records the same answer as one failure.
\<close>

theorem enhanced_dead_host_probe_not_recorded:
  "testCount (Enhanced_performSingleTest (Body False 0) 5000 Resolved 0 EnhancedNetworkAnalyzer_new) = 1
   \<and> testResults (Enhanced_performSingleTest (Body False 0) 5000 Resolved 0 EnhancedNetworkAnalyzer_new) = []
   \<and> successCount (Enhanced_performSingleTest (Body False 0) 5000 Resolved 0 EnhancedNetworkAnalyzer_new) = 0
   \<and> failCount (Enhanced_performSingleTest (Body False 0) 5000 Resolved 0 EnhancedNetworkAnalyzer_new) = 0
   \<and> failCount (handlePingResult False 0 EnhancedNetworkAnalyzer_new) = 1
   \<and> testResults (handlePingResult False 0 EnhancedNetworkAnalyzer_new) = [None]"
  by (simp add: Enhanced_performSingleTest_def backendPing_def settle_def
      EnhancedNetworkAnalyzer_new_def handlePingResult_def record_failure_def)


section \<open>Properties of the comparator\<close>

lemma compareAllDNS_entry_None:
  "compareAllDNS_entry target samples = None \<longleftrightarrow> filter_not_null samples = []"
  by (simp add: compareAllDNS_entry_def Let_def)

lemma compareAllDNS_entry_server:
  "compareAllDNS_entry target samples = Some r \<Longrightarrow> server r = target"
  by (auto simp: compareAllDNS_entry_def Let_def split: if_splits)

lemma fallbackDNSComparison_entry_None:
  "fallbackDNSComparison_entry target samples = None \<longleftrightarrow> filter_not_null samples = []"
  by (simp add: fallbackDNSComparison_entry_def Let_def)

lemma fallbackDNSComparison_entry_server:
  "fallbackDNSComparison_entry target samples = Some r \<Longrightarrow> server r = target"
  by (auto simp: fallbackDNSComparison_entry_def Let_def split: if_splits)

lemma compare_loop_servers:
  assumes none: "\<And>target samples. entry target samples = None \<longleftrightarrow> filter_not_null samples = []"
      and some: "\<And>target samples r. entry target samples = Some r \<Longrightarrow> server r = target"
  shows "map server (compare_loop entry fetched servers results) =
     map server results
       @ filter (\<lambda>target. filter_not_null (sample_server (fetched target)) \<noteq> []) servers"
proof (induction servers arbitrary: results)
  case Nil
  then show ?case by simp
next
  case (Cons target rest)
  show ?case
  proof (cases "entry target (sample_server (fetched target))")
    case None
    then have "filter_not_null (sample_server (fetched target)) = []"
      using none by simp
    with None Cons.IH [of results] show ?thesis by simp
  next
    case (Some r)
    then have "filter_not_null (sample_server (fetched target)) \<noteq> []"
      using none [of target "sample_server (fetched target)"] by simp
    moreover have "server r = target"
      using some [OF Some] .
    ultimately show ?thesis
      using Some Cons.IH [of "results @ [r]"] by simp
  qed
qed

lemma excluded_count_complement:
  "length (filter (\<lambda>target. filter_not_null (sample_server (fetched target)) \<noteq> []) servers)
     + excluded_count fetched servers = length servers"
  unfolding excluded_count_def
  using sum_length_filter_compl [of "\<lambda>target. filter_not_null (sample_server (fetched target)) \<noteq> []" servers]
  by simp

lemma mset_js_insert: "mset (js_insert comparefn x ys) = add_mset x (mset ys)"
  by (induction ys) simp_all

lemma mset_Array_sort: "mset (Array_sort comparefn xs) = mset xs"
  by (induction xs) (simp_all add: Array_sort_def mset_js_insert)

lemma js_insert_not_Nil: "js_insert comparefn x ys \<noteq> []"
  by (cases ys) simp_all

lemma displayComparisonResults_mset:
  "results \<noteq> [] \<Longrightarrow>
     mset (the (comparisonResults (displayComparisonResults results st))) = mset results"
  by (simp add: displayComparisonResults_def mset_Array_sort)

lemma upt_10: "[0..<10] = [0, 1, 2, 3, 4, 5, 6, 7, 8, 9]"
  by code_simp

lemma sample_up:
  "sample_server (one_up_one_down ''1.1.1.1'') =
     [Some 20, Some 20, Some 20, Some 20, Some 20, Some 20, Some 20, Some 20, Some 20, Some 20]"
  by (simp add: sample_server_def one_up_one_down_def upt_10)

lemma sample_down:
  "sample_server (one_up_one_down ''9.9.9.9'') =
     [None, None, None, None, None, None, None, None, None, None]"
  by (simp add: sample_server_def one_up_one_down_def upt_10)

lemma js_insert_insort_key:
  assumes "\<And>y. y \<in> set ys \<Longrightarrow> comparator_sign (comparefn x y) \<le> 0 \<longleftrightarrow> f x \<le> f y"
  shows "js_insert comparefn x ys = insort_key f x ys"
  using assms by (induction ys) simp_all

lemma Array_sort_sort_key:
  assumes "\<And>x y. x \<in> set xs \<Longrightarrow> y \<in> set xs \<Longrightarrow>
             comparator_sign (comparefn x y) \<le> 0 \<longleftrightarrow> (f x :: real) \<le> f y"
  shows "Array_sort comparefn xs = sort_key f xs"
  using assms
proof (induction xs)
  case Nil
  then show ?case by (simp add: Array_sort_def)
next
  case (Cons x xs)
  have IH: "Array_sort comparefn xs = sort_key f xs"
    using Cons.IH Cons.prems by simp
  have "Array_sort comparefn (x # xs) = js_insert comparefn x (Array_sort comparefn xs)"
    by (simp add: Array_sort_def)
  also have "\<dots> = js_insert comparefn x (sort_key f xs)"
    by (simp only: IH)
  also have "\<dots> = insort_key f x (sort_key f xs)"
    by (rule js_insert_insort_key) (simp add: Cons.prems)
  finally show ?case by simp
qed

lemma sort_comparefn_ascending:
  assumes "key \<noteq> ''successRate''"
      and "numeric_property key a = Number va" "numeric_property key b = Number vb"
  shows "comparator_sign (sort_comparefn key a b) \<le> 0
     \<longleftrightarrow> the_number (numeric_property key a) \<le> the_number (numeric_property key b)"
  using assms by (simp add: sort_comparefn_def)

lemma sort_comparefn_descending:
  "comparator_sign (sort_comparefn ''successRate'' a b) \<le> 0
     \<longleftrightarrow> - successRate a \<le> - successRate b"
  by (simp add: sort_comparefn_def numeric_property_def)

lemma Array_sort_rank_key:
  assumes "\<forall>r \<in> set results. \<exists>v. numeric_property key r = Number v"
  shows "Array_sort (sort_comparefn key) results = sort_key (rank_key key) results"
proof (rule Array_sort_sort_key)
  fix x y
  assume x: "x \<in> set results" and y: "y \<in> set results"
  show "comparator_sign (sort_comparefn key x y) \<le> 0 \<longleftrightarrow> rank_key key x \<le> rank_key key y"
  proof (cases "key = ''successRate''")
    case True
    then show ?thesis
      using sort_comparefn_descending [of x y] by (simp add: rank_key_def)
  next
    case False
    from assms x y obtain vx vy
      where "numeric_property key x = Number vx" "numeric_property key y = Number vy"
      by blast
    with False show ?thesis
      using sort_comparefn_ascending [of key x vx y vy] by (simp add: rank_key_def)
  qed
qed

lemma sort_key_twice: "sort_key f (sort_key f xs) = sort_key f xs"
  by (rule sort_key_id_if_sorted) simp

lemma displayComparisonResults_ranked:
  assumes "results \<noteq> []" "\<forall>r \<in> set results. \<exists>v. numeric_property (currentSort st) r = Number v"
  shows "displayComparisonResults results st =
     st\<lparr>comparisonResults := Some (sort_key (rank_key (currentSort st)) results)\<rparr>"
  using assms by (simp add: displayComparisonResults_def Array_sort_rank_key)

lemma sortComparison_ranked:
  assumes "comparisonResults st = Some results" "results \<noteq> []"
      and "\<forall>r \<in> set results. \<exists>v. numeric_property key r = Number v"
  shows "sortComparison key st =
       st\<lparr>currentSort := key, comparisonResults := Some (sort_key (rank_key key) results)\<rparr>"
    and "Enhanced_sortComparison key st =
       st\<lparr>currentSort := key, comparisonResults := Some (sort_key (rank_key key) results)\<rparr>"
proof -
  let ?sorted = "sort_key (rank_key key) results"
  have s: "Array_sort (sort_comparefn key) results = ?sorted"
    using assms(3) by (rule Array_sort_rank_key)
  have ne: "?sorted \<noteq> []" using assms(2) by (metis length_sort list.size(3) length_0_conv)
  have num: "\<forall>r \<in> set ?sorted. \<exists>v. numeric_property key r = Number v"
    using assms(3) by simp
  have "Array_sort (sort_comparefn key) ?sorted = sort_key (rank_key key) ?sorted"
    using num by (rule Array_sort_rank_key)
  then have again: "Array_sort (sort_comparefn key) ?sorted = ?sorted"
    by (simp only: sort_key_twice)
  show "sortComparison key st =
       st\<lparr>currentSort := key, comparisonResults := Some ?sorted\<rparr>"
    using assms(1) ne by (simp add: sortComparison_def s displayComparisonResults_def again Let_def)
  show "Enhanced_sortComparison key st =
       st\<lparr>currentSort := key, comparisonResults := Some ?sorted\<rparr>"
    using assms(1,2) by (simp add: Enhanced_sortComparison_def displayComparisonResults_def s)
qed

lemma jitter_constant:
  "calculateJitter [20, 20, 20, 20, 20, 20, 20, 20, 20, 20] = 0"
  by code_simp

lemma two_targets_ranked:
  "comparisonResults (fallbackDNSComparison one_up_one_down [''1.1.1.1'', ''9.9.9.9''] comparator_new)
     = Some [\<lparr>server = ''1.1.1.1'', avg = Some 20, min_latency = Some 20, max_latency = Some 20,
              jitter = 0, successRate = 100, p95 = Undefined, p99 = Undefined,
              packetLoss = Number 0, probe_method = Some ''browser''\<rparr>]"
  by (simp add: fallbackDNSComparison_def sample_up sample_down fallbackDNSComparison_entry_def
      displayComparisonResults_def filter_not_null_def Array_sort_def Let_def reduce_sum_def
      Math_min_def Math_max_def jitter_constant comparator_new_def)

lemma one_target_ranked:
  "comparisonResults (fallbackDNSComparison one_up_one_down [''1.1.1.1''] comparator_new)
     = Some [\<lparr>server = ''1.1.1.1'', avg = Some 20, min_latency = Some 20, max_latency = Some 20,
              jitter = 0, successRate = 100, p95 = Undefined, p99 = Undefined,
              packetLoss = Number 0, probe_method = Some ''browser''\<rparr>]"
  by (simp add: fallbackDNSComparison_def sample_up fallbackDNSComparison_entry_def
      displayComparisonResults_def filter_not_null_def Array_sort_def Let_def reduce_sum_def
      Math_min_def Math_max_def jitter_constant comparator_new_def)

text \<open>
  C6, as stated, fails in its second half: no exclusion count is reported. What a
  comparison leaves behind is \<open>comparisonResults\<close>, and it is the same for the targets
  \<open>1.1.1.1\<close> (all fetches resolve) and \<open>9.9.9.9\<close> (all fetches throw), where one target is
  excluded, as for the single target \<open>1.1.1.1\<close>, where none is.
\<close>

theorem exclusion_count_not_reported:
  "comparisonResults (fallbackDNSComparison one_up_one_down [''1.1.1.1'', ''9.9.9.9''] comparator_new)
     = comparisonResults (fallbackDNSComparison one_up_one_down [''1.1.1.1''] comparator_new)
   \<and> excluded_count one_up_one_down [''1.1.1.1'', ''9.9.9.9''] = 1
   \<and> excluded_count one_up_one_down [''1.1.1.1''] = 0"
  by (simp add: two_targets_ranked one_target_ranked excluded_count_def sample_up sample_down
      filter_not_null_def)

lemma displayComparisonResults_empty:
  "displayComparisonResults [] st = st"
  by (simp add: displayComparisonResults_def)

text \<open>
  C6, amended: the browser comparison loops. In \<open>NetworkAnalyzer.compareAllDNS\<close> and in
  \<open>EnhancedNetworkAnalyzer.fallbackDNSComparison\<close> (which is the whole comparison of the
  enhanced class when the backend is not used or did not answer) the collected results
  are, in order, exactly the targets with at least one successful sample: a target with
  none is absent, not scored. No exclusion count is produced; the number of results and
  the number of excluded targets add up to the number of targets. When at least one
  target succeeded, the stored ranking holds the same targets; when none did, the stored
  ranking is left as it was. With the two targets \<open>1.1.1.1\<close> (all fetches resolve) and
  \<open>9.9.9.9\<close> (all fetches throw) the ranking has the one entry \<open>1.1.1.1\<close>.
\<close>

theorem zero_success_targets_absent:
  "map server (compare_loop compareAllDNS_entry fetched servers []) =
     filter (\<lambda>target. filter_not_null (sample_server (fetched target)) \<noteq> []) servers
   \<and> map server (compare_loop fallbackDNSComparison_entry fetched servers []) =
     filter (\<lambda>target. filter_not_null (sample_server (fetched target)) \<noteq> []) servers
   \<and> length (compare_loop compareAllDNS_entry fetched servers []) + excluded_count fetched servers
       = length servers
   \<and> length (compare_loop fallbackDNSComparison_entry fetched servers [])
       + excluded_count fetched servers = length servers
   \<and> (compare_loop compareAllDNS_entry fetched dnsServers [] \<noteq> [] \<longrightarrow>
        mset (map server (the (comparisonResults (compareAllDNS fetched st)))) =
          mset (filter (\<lambda>target. filter_not_null (sample_server (fetched target)) \<noteq> []) dnsServers))
   \<and> (compare_loop fallbackDNSComparison_entry fetched servers [] \<noteq> [] \<longrightarrow>
        mset (map server (the (comparisonResults (fallbackDNSComparison fetched servers st)))) =
          mset (filter (\<lambda>target. filter_not_null (sample_server (fetched target)) \<noteq> []) servers))
   \<and> (compare_loop compareAllDNS_entry fetched dnsServers [] = [] \<longrightarrow>
        comparisonResults (compareAllDNS fetched st) = comparisonResults st)
   \<and> (compare_loop fallbackDNSComparison_entry fetched servers [] = [] \<longrightarrow>
        comparisonResults (fallbackDNSComparison fetched servers st) = comparisonResults st)
   \<and> Enhanced_compareAllDNS False answer fetched st
       = fallbackDNSComparison fetched Enhanced_dnsServers st
   \<and> comparisonResults (Enhanced_compareAllDNS True None fetched st)
       = comparisonResults (fallbackDNSComparison fetched Enhanced_dnsServers st)
   \<and> map server (the (comparisonResults
          (fallbackDNSComparison one_up_one_down [''1.1.1.1'', ''9.9.9.9''] comparator_new)))
       = [''1.1.1.1'']"
proof -
  let ?up = "\<lambda>target. filter_not_null (sample_server (fetched target)) \<noteq> []"
  have a: "\<And>srvs. map server (compare_loop compareAllDNS_entry fetched srvs []) = filter ?up srvs"
    using compare_loop_servers [of compareAllDNS_entry fetched _ "[]",
        OF compareAllDNS_entry_None compareAllDNS_entry_server]
    by simp
  have b: "\<And>srvs. map server (compare_loop fallbackDNSComparison_entry fetched srvs []) = filter ?up srvs"
    using compare_loop_servers [of fallbackDNSComparison_entry fetched _ "[]",
        OF fallbackDNSComparison_entry_None fallbackDNSComparison_entry_server]
    by simp
  have la: "length (compare_loop compareAllDNS_entry fetched servers []) = length (filter ?up servers)"
    using arg_cong [OF a [of servers], of length] by simp
  have lb: "length (compare_loop fallbackDNSComparison_entry fetched servers [])
      = length (filter ?up servers)"
    using arg_cong [OF b [of servers], of length] by simp
  have c: "length (compare_loop compareAllDNS_entry fetched servers []) + excluded_count fetched servers
       = length servers"
    unfolding la by (rule excluded_count_complement)
  have d: "length (compare_loop fallbackDNSComparison_entry fetched servers [])
       + excluded_count fetched servers = length servers"
    unfolding lb by (rule excluded_count_complement)
  have e: "compare_loop compareAllDNS_entry fetched dnsServers [] \<noteq> [] \<longrightarrow>
        mset (map server (the (comparisonResults (compareAllDNS fetched st)))) =
          mset (filter ?up dnsServers)"
  proof
    assume ne: "compare_loop compareAllDNS_entry fetched dnsServers [] \<noteq> []"
    have "mset (the (comparisonResults (compareAllDNS fetched st)))
        = mset (compare_loop compareAllDNS_entry fetched dnsServers [])"
      unfolding compareAllDNS_def by (rule displayComparisonResults_mset [OF ne])
    then have "mset (map server (the (comparisonResults (compareAllDNS fetched st))))
        = mset (map server (compare_loop compareAllDNS_entry fetched dnsServers []))"
      by (metis mset_map)
    then show "mset (map server (the (comparisonResults (compareAllDNS fetched st)))) =
          mset (filter ?up dnsServers)"
      by (simp only: a)
  qed
  have f: "compare_loop fallbackDNSComparison_entry fetched servers [] \<noteq> [] \<longrightarrow>
        mset (map server (the (comparisonResults (fallbackDNSComparison fetched servers st)))) =
          mset (filter ?up servers)"
  proof
    assume ne: "compare_loop fallbackDNSComparison_entry fetched servers [] \<noteq> []"
    have "mset (the (comparisonResults (fallbackDNSComparison fetched servers st)))
        = mset (compare_loop fallbackDNSComparison_entry fetched servers [])"
      unfolding fallbackDNSComparison_def by (rule displayComparisonResults_mset [OF ne])
    then have "mset (map server (the (comparisonResults (fallbackDNSComparison fetched servers st))))
        = mset (map server (compare_loop fallbackDNSComparison_entry fetched servers []))"
      by (metis mset_map)
    then show "mset (map server (the (comparisonResults (fallbackDNSComparison fetched servers st)))) =
          mset (filter ?up servers)"
      by (simp only: b)
  qed
  have g: "map server (the (comparisonResults
          (fallbackDNSComparison one_up_one_down [''1.1.1.1'', ''9.9.9.9''] comparator_new)))
       = [''1.1.1.1'']"
    by (simp add: two_targets_ranked)
  have h: "compare_loop compareAllDNS_entry fetched dnsServers [] = [] \<longrightarrow>
        comparisonResults (compareAllDNS fetched st) = comparisonResults st"
    by (simp add: compareAllDNS_def displayComparisonResults_empty)
  have i: "compare_loop fallbackDNSComparison_entry fetched servers [] = [] \<longrightarrow>
        comparisonResults (fallbackDNSComparison fetched servers st) = comparisonResults st"
    by (simp add: fallbackDNSComparison_def displayComparisonResults_empty)
  have j: "Enhanced_compareAllDNS False answer fetched st
       = fallbackDNSComparison fetched Enhanced_dnsServers st"
    by (simp add: Enhanced_compareAllDNS_def)
  have k: "comparisonResults (Enhanced_compareAllDNS True None fetched st)
       = comparisonResults (fallbackDNSComparison fetched Enhanced_dnsServers st)"
    by (simp add: Enhanced_compareAllDNS_def fallbackDNSComparison_def displayComparisonResults_def)
  from a [of servers] b [of servers] c d e f g h i j k show ?thesis by blast
qed

text \<open>
  The theorem on the stub with one target up and one down, and on a stub with every
  target down after an earlier comparison.
\<close>

theorem zero_success_targets_absent_witness:
  "compare_loop fallbackDNSComparison_entry one_up_one_down [''1.1.1.1'', ''9.9.9.9''] [] \<noteq> []
   \<and> map server (compare_loop fallbackDNSComparison_entry one_up_one_down [''1.1.1.1'', ''9.9.9.9''] [])
       = [''1.1.1.1'']
   \<and> mset (map server (the (comparisonResults
        (fallbackDNSComparison one_up_one_down [''1.1.1.1'', ''9.9.9.9''] comparator_new))))
       = {#''1.1.1.1''#}
   \<and> compare_loop compareAllDNS_entry one_up_one_down dnsServers [] \<noteq> []
   \<and> mset (map server (the (comparisonResults (compareAllDNS one_up_one_down comparator_new))))
       = {#''1.1.1.1''#}
   \<and> compare_loop compareAllDNS_entry (\<lambda>target i. None) dnsServers [] = []
   \<and> comparisonResults (compareAllDNS (\<lambda>target i. None)
        (comparator_new\<lparr>comparisonResults := Some example_results\<rparr>)) = Some example_results
   \<and> compare_loop fallbackDNSComparison_entry (\<lambda>target i. None) [''1.1.1.1'', ''9.9.9.9''] [] = []
   \<and> comparisonResults (fallbackDNSComparison (\<lambda>target i. None) [''1.1.1.1'', ''9.9.9.9'']
        (comparator_new\<lparr>comparisonResults := Some example_results\<rparr>)) = Some example_results"
proof -
  let ?up = "\<lambda>target. filter_not_null (sample_server (one_up_one_down target)) \<noteq> []"
  let ?st = "comparator_new\<lparr>comparisonResults := Some example_results\<rparr>"
  have down: "\<And>target. target \<noteq> ''1.1.1.1'' \<Longrightarrow>
      filter_not_null (sample_server (one_up_one_down target)) = []"
    by (simp add: sample_server_def one_up_one_down_def filter_not_null_def)
  have up: "filter_not_null (sample_server (one_up_one_down ''1.1.1.1'')) \<noteq> []"
    by (simp add: sample_up filter_not_null_def)
  have u: "filter ?up [''1.1.1.1'', ''9.9.9.9''] = [''1.1.1.1'']"
    by (simp add: down up)
  have v: "filter ?up dnsServers = [''1.1.1.1'']"
    by (simp add: dnsServers_def down up)
  have none: "\<And>servers :: string list.
      filter (\<lambda>target. filter_not_null (sample_server (\<lambda>i. None :: real option)) \<noteq> []) servers = []"
    by (simp add: sample_server_def filter_not_null_def)
  note t = zero_success_targets_absent [of one_up_one_down "[''1.1.1.1'', ''9.9.9.9'']" comparator_new]
  note t' = zero_success_targets_absent [of one_up_one_down dnsServers comparator_new]
  note t0 = zero_success_targets_absent [of "\<lambda>target i. None" "[''1.1.1.1'', ''9.9.9.9'']" ?st]
  note t1 = zero_success_targets_absent [of "\<lambda>target i. None" dnsServers ?st]
  from t have "map server (compare_loop fallbackDNSComparison_entry one_up_one_down
      [''1.1.1.1'', ''9.9.9.9''] []) = filter ?up [''1.1.1.1'', ''9.9.9.9'']"
    by blast
  then have m: "map server (compare_loop fallbackDNSComparison_entry one_up_one_down
      [''1.1.1.1'', ''9.9.9.9''] []) = [''1.1.1.1'']"
    by (simp only: u)
  then have ne: "compare_loop fallbackDNSComparison_entry one_up_one_down
      [''1.1.1.1'', ''9.9.9.9''] [] \<noteq> []"
    by auto
  with t have "mset (map server (the (comparisonResults
        (fallbackDNSComparison one_up_one_down [''1.1.1.1'', ''9.9.9.9''] comparator_new))))
       = mset (filter ?up [''1.1.1.1'', ''9.9.9.9''])"
    by blast
  then have s: "mset (map server (the (comparisonResults
        (fallbackDNSComparison one_up_one_down [''1.1.1.1'', ''9.9.9.9''] comparator_new))))
       = {#''1.1.1.1''#}"
    by (simp only: u) simp
  from t' have "map server (compare_loop compareAllDNS_entry one_up_one_down dnsServers [])
      = filter ?up dnsServers"
    by blast
  then have "map server (compare_loop compareAllDNS_entry one_up_one_down dnsServers [])
      = [''1.1.1.1'']"
    by (simp only: v)
  then have ne': "compare_loop compareAllDNS_entry one_up_one_down dnsServers [] \<noteq> []"
    by auto
  with t' have "mset (map server (the (comparisonResults (compareAllDNS one_up_one_down comparator_new))))
       = mset (filter ?up dnsServers)"
    by blast
  then have s': "mset (map server (the (comparisonResults (compareAllDNS one_up_one_down comparator_new))))
       = {#''1.1.1.1''#}"
    by (simp only: v) simp
  from t0 have "map server (compare_loop fallbackDNSComparison_entry (\<lambda>target i. None)
      [''1.1.1.1'', ''9.9.9.9''] [])
      = filter (\<lambda>target. filter_not_null (sample_server (\<lambda>i. None :: real option)) \<noteq> [])
          [''1.1.1.1'', ''9.9.9.9'']"
    by blast
  then have e0: "compare_loop fallbackDNSComparison_entry (\<lambda>target i. None)
      [''1.1.1.1'', ''9.9.9.9''] [] = []"
    by (simp only: none) simp
  with t0 have s0: "comparisonResults (fallbackDNSComparison (\<lambda>target i. None)
      [''1.1.1.1'', ''9.9.9.9''] ?st) = comparisonResults ?st"
    by blast
  from t1 have "map server (compare_loop compareAllDNS_entry (\<lambda>target i. None) dnsServers [])
      = filter (\<lambda>target. filter_not_null (sample_server (\<lambda>i. None :: real option)) \<noteq> [])
          dnsServers"
    by blast
  then have e1: "compare_loop compareAllDNS_entry (\<lambda>target i. None) dnsServers [] = []"
    by (simp only: none) simp
  with t1 have s1: "comparisonResults (compareAllDNS (\<lambda>target i. None) ?st) = comparisonResults ?st"
    by blast
  have c: "comparisonResults ?st = Some example_results" by simp
  from ne m s ne' s' e1 s1 e0 s0 show ?thesis
    unfolding c by blast
qed

text \<open>
  The default path of \<open>EnhancedNetworkAnalyzer.compareAllDNS\<close> is not covered by the
  amended statement, and behaves otherwise. The backend reports a server it never
  reached with \<open>success: true\<close>, zero successes and \<open>avg: null\<close>;
  \<open>processBackendBatchResults\<close> keeps it, the sort ranks it first (\<open>null\<close> counts as 0), and
  the object stores that ranking before the rendering throws on \<open>null.toFixed\<close>. The
  browser loop then runs: when it reaches a target its results replace the stored ones,
  when it reaches none the ranking with the unreached server stays.
\<close>

lemma backend_batch_keeps_unreached_target:
  "map server (the (comparisonResults (processBackendBatchResults
      (batch_test one_up_one_down [''1.1.1.1'', ''9.9.9.9''] 10) comparator_new)))
     = [''9.9.9.9'', ''1.1.1.1'']
   \<and> Enhanced_render_throws (processedResults (batch_test one_up_one_down [''1.1.1.1'', ''9.9.9.9''] 10))
   \<and> map server (the (comparisonResults (Enhanced_compareAllDNS True
        (Some (batch_test one_up_one_down [''1.1.1.1'', ''9.9.9.9''] 10)) (\<lambda>target i. None)
        comparator_new)))
     = [''9.9.9.9'', ''1.1.1.1'']
   \<and> map server (the (comparisonResults (Enhanced_compareAllDNS True
        (Some (batch_test one_up_one_down [''1.1.1.1'', ''9.9.9.9''] 10)) one_up_one_down
        comparator_new)))
     = [''1.1.1.1'']"
  by code_simp

lemma compare_loop_members:
  "r \<in> set (compare_loop entry fetched servers results) \<Longrightarrow>
     r \<in> set results \<or> (\<exists>target samples. entry target samples = Some r)"
proof (induction servers arbitrary: results)
  case Nil
  then show ?case by simp
next
  case (Cons target rest)
  show ?case
  proof (cases "entry target (sample_server (fetched target))")
    case None
    with Cons.prems Cons.IH [of results] show ?thesis by simp
  next
    case (Some e)
    with Cons.prems Cons.IH [of "results @ [e]"] show ?thesis by auto
  qed
qed

text \<open>
  The properties behind the sort buttons of each class are numbers on every result that
  class collects: \<open>p95\<close> in \<open>NetworkAnalyzer\<close>, \<open>packetLoss\<close> in \<open>EnhancedNetworkAnalyzer\<close>.
\<close>

lemma compareAllDNS_p95_numeric:
  "\<forall>r \<in> set (compare_loop compareAllDNS_entry fetched servers []). \<exists>v. p95 r = Number v"
proof
  fix r
  assume "r \<in> set (compare_loop compareAllDNS_entry fetched servers [])"
  then obtain target samples where e: "compareAllDNS_entry target samples = Some r"
    using compare_loop_members [of r compareAllDNS_entry fetched servers "[]"] by auto
  then have ne: "filter_not_null samples \<noteq> []"
    by (auto simp: compareAllDNS_entry_def Let_def split: if_splits)
  from e have p: "p95 r = percentile (filter_not_null samples) 0.95"
    by (auto simp: compareAllDNS_entry_def Let_def split: if_splits)
  have "\<exists>v. percentile (filter_not_null samples) 0.95 = Number v"
    using percentile_interpolates [OF ne, of "0.95"] by simp
  then show "\<exists>v. p95 r = Number v"
    by (simp add: p)
qed

lemma fallbackDNSComparison_packetLoss_numeric:
  "\<forall>r \<in> set (compare_loop fallbackDNSComparison_entry fetched servers []).
     \<exists>v. packetLoss r = Number v"
proof
  fix r
  assume "r \<in> set (compare_loop fallbackDNSComparison_entry fetched servers [])"
  then obtain target samples where "fallbackDNSComparison_entry target samples = Some r"
    using compare_loop_members [of r fallbackDNSComparison_entry fetched servers "[]"] by auto
  then show "\<exists>v. packetLoss r = Number v"
    by (auto simp: fallbackDNSComparison_entry_def Let_def split: if_splits)
qed

lemma processedResults_packetLoss_numeric:
  "\<forall>r \<in> set (processedResults results). \<exists>v. packetLoss r = Number v"
proof
  fix r
  assume "r \<in> set (processedResults results)"
  then obtain b where "backend_entry b = Some r"
    by (auto simp: processedResults_def filter_not_null_def)
  then show "\<exists>v. packetLoss r = Number v"
    by (cases b) auto
qed

text \<open>What each sort key ranks by, field by field.\<close>

lemma rank_key_fields:
  "rank_key ''avg'' r = (case avg r of None \<Rightarrow> 0 | Some a \<Rightarrow> a)"
  "rank_key ''jitter'' r = jitter r"
  "rank_key ''p95'' r = the_number (p95 r)"
  "rank_key ''packetLoss'' r = the_number (packetLoss r)"
  "rank_key ''successRate'' r = - successRate r"
  by (cases "avg r") (simp_all add: rank_key_def numeric_property_def)

lemma sorted_descending:
  assumes "sorted (map (\<lambda>r. - f r) xs)"
  shows "sorted (rev (map (f :: 'a \<Rightarrow> real) xs))"
proof -
  from assms have "sorted (map uminus (map f xs))"
    by (simp add: comp_def)
  then show ?thesis
    by (simp add: sorted_wrt_rev sorted_map sorted_wrt_map)
qed

text \<open>
  C7. Let a comparison have stored a non-empty result set, and let the sort key be one of
  \<open>avg\<close>, \<open>jitter\<close>, \<open>p95\<close>, \<open>packetLoss\<close>, \<open>successRate\<close>, where for \<open>p95\<close> and \<open>packetLoss\<close>
  every result has that property as a number (as the results of the class that offers
  the key do). Then \<open>sortComparison key\<close>, in both classes, makes \<open>key\<close> the current sort
  key, sends no probe, and leaves the same results stored in ranked order: ascending in
  the field \<open>avg\<close> (a \<open>null\<close> counting as 0), \<open>jitter\<close>, \<open>p95\<close> or \<open>packetLoss\<close> that the key
  names, descending in \<open>successRate\<close>. The ranking is the one a first display under that
  key gives. A new analyzer sorts by \<open>avg\<close>.
\<close>

theorem resort_by_key:
  assumes "comparisonResults st = Some results" "results \<noteq> []"
      and "key \<in> {''avg'', ''jitter'', ''p95'', ''packetLoss'', ''successRate''}"
      and "key = ''p95'' \<longrightarrow> (\<forall>r \<in> set results. \<exists>v. p95 r = Number v)"
      and "key = ''packetLoss'' \<longrightarrow> (\<forall>r \<in> set results. \<exists>v. packetLoss r = Number v)"
  shows "currentSort (sortComparison key st) = key
     \<and> fetchesIssued (sortComparison key st) = fetchesIssued st
     \<and> mset (the (comparisonResults (sortComparison key st))) = mset results
     \<and> (key = ''avg'' \<longrightarrow>
          sorted (map (\<lambda>r. case avg r of None \<Rightarrow> 0 | Some a \<Rightarrow> a)
                    (the (comparisonResults (sortComparison key st)))))
     \<and> (key = ''jitter'' \<longrightarrow>
          sorted (map jitter (the (comparisonResults (sortComparison key st)))))
     \<and> (key = ''p95'' \<longrightarrow>
          sorted (map (\<lambda>r. the_number (p95 r)) (the (comparisonResults (sortComparison key st)))))
     \<and> (key = ''packetLoss'' \<longrightarrow>
          sorted (map (\<lambda>r. the_number (packetLoss r))
                    (the (comparisonResults (sortComparison key st)))))
     \<and> (key = ''successRate'' \<longrightarrow>
          sorted (rev (map successRate (the (comparisonResults (sortComparison key st))))))
     \<and> Enhanced_sortComparison key st = sortComparison key st
     \<and> comparisonResults (displayComparisonResults results (st\<lparr>currentSort := key\<rparr>))
         = comparisonResults (sortComparison key st)
     \<and> currentSort comparator_new = ''avg''"
proof -
  have num: "\<forall>r \<in> set results. \<exists>v. numeric_property key r = Number v"
    using assms(3,4,5) by (auto simp: numeric_property_def)
  note r = sortComparison_ranked [OF assms(1,2) num]
  let ?ranked = "sort_key (rank_key key) results"
  have c: "the (comparisonResults (sortComparison key st)) = ?ranked"
    unfolding r by simp
  have srt: "sorted (map (rank_key key) ?ranked)" by simp
  have 1: "currentSort (sortComparison key st) = key"
    and 2: "fetchesIssued (sortComparison key st) = fetchesIssued st"
    and 3: "mset (the (comparisonResults (sortComparison key st))) = mset results"
    and 9: "Enhanced_sortComparison key st = sortComparison key st"
    unfolding r by simp_all
  have 4: "key = ''avg'' \<longrightarrow>
      sorted (map (\<lambda>r. case avg r of None \<Rightarrow> 0 | Some a \<Rightarrow> a) ?ranked)"
  proof
    assume k: "key = ''avg''"
    have "rank_key ''avg'' = (\<lambda>r. case avg r of None \<Rightarrow> 0 | Some a \<Rightarrow> a)"
      by (rule ext) (rule rank_key_fields)
    with srt show "sorted (map (\<lambda>r. case avg r of None \<Rightarrow> 0 | Some a \<Rightarrow> a) ?ranked)"
      unfolding k by simp
  qed
  have 5: "key = ''jitter'' \<longrightarrow> sorted (map jitter ?ranked)"
  proof
    assume k: "key = ''jitter''"
    have "rank_key ''jitter'' = jitter"
      by (rule ext) (rule rank_key_fields)
    with srt show "sorted (map jitter ?ranked)"
      unfolding k by simp
  qed
  have 6: "key = ''p95'' \<longrightarrow> sorted (map (\<lambda>r. the_number (p95 r)) ?ranked)"
  proof
    assume k: "key = ''p95''"
    have "rank_key ''p95'' = (\<lambda>r. the_number (p95 r))"
      by (rule ext) (rule rank_key_fields)
    with srt show "sorted (map (\<lambda>r. the_number (p95 r)) ?ranked)"
      unfolding k by simp
  qed
  have 7: "key = ''packetLoss'' \<longrightarrow> sorted (map (\<lambda>r. the_number (packetLoss r)) ?ranked)"
  proof
    assume k: "key = ''packetLoss''"
    have "rank_key ''packetLoss'' = (\<lambda>r. the_number (packetLoss r))"
      by (rule ext) (rule rank_key_fields)
    with srt show "sorted (map (\<lambda>r. the_number (packetLoss r)) ?ranked)"
      unfolding k by simp
  qed
  have 8: "key = ''successRate'' \<longrightarrow> sorted (rev (map successRate ?ranked))"
  proof
    assume k: "key = ''successRate''"
    have "rank_key ''successRate'' = (\<lambda>r. - successRate r)"
      by (rule ext) (rule rank_key_fields)
    with srt have "sorted (map (\<lambda>r. - successRate r) ?ranked)"
      unfolding k by simp
    then show "sorted (rev (map successRate ?ranked))"
      by (rule sorted_descending)
  qed
  have 10: "comparisonResults (displayComparisonResults results (st\<lparr>currentSort := key\<rparr>))
         = comparisonResults (sortComparison key st)"
    unfolding r using displayComparisonResults_ranked [of results "st\<lparr>currentSort := key\<rparr>"]
      assms(2) num
    by simp
  have 11: "currentSort comparator_new = ''avg''"
    by (simp add: comparator_new_def)
  from 1 2 3 4 5 6 7 8 9 10 11 show ?thesis
    unfolding c by blast
qed

text \<open>
  The theorem on three collected results of each class, re-sorted by each of the five
  keys: every key gives another order of the servers.
\<close>

theorem resort_by_key_witness:
  "comparisonResults (comparator_new\<lparr>comparisonResults := Some example_results\<rparr>) = Some example_results
   \<and> example_results \<noteq> []
   \<and> map server example_results = [''8.8.8.8'', ''1.1.1.1'', ''9.9.9.9'']
   \<and> sorted (map (\<lambda>r. case avg r of None \<Rightarrow> 0 | Some a \<Rightarrow> a) (the (comparisonResults
        (sortComparison ''avg'' (comparator_new\<lparr>comparisonResults := Some example_results\<rparr>)))))
   \<and> map server (the (comparisonResults
        (sortComparison ''avg'' (comparator_new\<lparr>comparisonResults := Some example_results\<rparr>))))
       = [''1.1.1.1'', ''9.9.9.9'', ''8.8.8.8'']
   \<and> sorted (map jitter (the (comparisonResults
        (sortComparison ''jitter'' (comparator_new\<lparr>comparisonResults := Some example_results\<rparr>)))))
   \<and> map server (the (comparisonResults
        (sortComparison ''jitter'' (comparator_new\<lparr>comparisonResults := Some example_results\<rparr>))))
       = [''9.9.9.9'', ''8.8.8.8'', ''1.1.1.1'']
   \<and> sorted (map (\<lambda>r. the_number (p95 r)) (the (comparisonResults
        (sortComparison ''p95'' (comparator_new\<lparr>comparisonResults := Some example_results\<rparr>)))))
   \<and> map server (the (comparisonResults
        (sortComparison ''p95'' (comparator_new\<lparr>comparisonResults := Some example_results\<rparr>))))
       = [''1.1.1.1'', ''8.8.8.8'', ''9.9.9.9'']
   \<and> sorted (rev (map successRate (the (comparisonResults
        (sortComparison ''successRate'' (comparator_new\<lparr>comparisonResults := Some example_results\<rparr>))))))
   \<and> map server (the (comparisonResults
        (sortComparison ''successRate'' (comparator_new\<lparr>comparisonResults := Some example_results\<rparr>))))
       = [''8.8.8.8'', ''1.1.1.1'', ''9.9.9.9'']
   \<and> sorted (map (\<lambda>r. the_number (packetLoss r)) (the (comparisonResults
        (Enhanced_sortComparison ''packetLoss''
           (comparator_new\<lparr>comparisonResults := Some Enhanced_example_results\<rparr>)))))
   \<and> map server (the (comparisonResults
        (Enhanced_sortComparison ''packetLoss''
           (comparator_new\<lparr>comparisonResults := Some Enhanced_example_results\<rparr>))))
       = [''1.1.1.1'', ''9.9.9.9'', ''8.8.8.8'']
   \<and> fetchesIssued (sortComparison ''jitter''
        (comparator_new\<lparr>comparisonResults := Some example_results\<rparr>)) = 0"
proof -
  let ?st = "comparator_new\<lparr>comparisonResults := Some example_results\<rparr>"
  let ?est = "comparator_new\<lparr>comparisonResults := Some Enhanced_example_results\<rparr>"
  have c: "comparisonResults ?st = Some example_results" by simp
  have ec: "comparisonResults ?est = Some Enhanced_example_results" by simp
  have ne: "example_results \<noteq> []" by (simp add: example_results_def)
  have ene: "Enhanced_example_results \<noteq> []" by (simp add: Enhanced_example_results_def)
  have p: "\<forall>r \<in> set example_results. \<exists>v. p95 r = Number v"
    by (simp add: example_results_def)
  have l: "\<forall>r \<in> set Enhanced_example_results. \<exists>v. packetLoss r = Number v"
    by (simp add: Enhanced_example_results_def)
  have servers: "map server example_results = [''8.8.8.8'', ''1.1.1.1'', ''9.9.9.9'']"
    by (simp add: example_results_def)
  have orders:
    "map server (the (comparisonResults (sortComparison ''avg'' ?st)))
       = [''1.1.1.1'', ''9.9.9.9'', ''8.8.8.8'']"
    "map server (the (comparisonResults (sortComparison ''jitter'' ?st)))
       = [''9.9.9.9'', ''8.8.8.8'', ''1.1.1.1'']"
    "map server (the (comparisonResults (sortComparison ''p95'' ?st)))
       = [''1.1.1.1'', ''8.8.8.8'', ''9.9.9.9'']"
    "map server (the (comparisonResults (sortComparison ''successRate'' ?st)))
       = [''8.8.8.8'', ''1.1.1.1'', ''9.9.9.9'']"
    "map server (the (comparisonResults (Enhanced_sortComparison ''packetLoss'' ?est)))
       = [''1.1.1.1'', ''9.9.9.9'', ''8.8.8.8'']"
    by (simp_all add: sortComparison_def Enhanced_sortComparison_def displayComparisonResults_def
        Array_sort_def sort_comparefn_def numeric_property_def example_results_def
        Enhanced_example_results_def comparator_new_def Let_def)
  have a: "sorted (map (\<lambda>r. case avg r of None \<Rightarrow> 0 | Some a \<Rightarrow> a)
      (the (comparisonResults (sortComparison ''avg'' ?st))))"
    using resort_by_key [of ?st example_results "''avg''", OF c ne] by simp
  have j: "sorted (map jitter (the (comparisonResults (sortComparison ''jitter'' ?st))))"
    and f: "fetchesIssued (sortComparison ''jitter'' ?st) = 0"
    using resort_by_key [of ?st example_results "''jitter''", OF c ne]
    by (simp_all add: comparator_new_def)
  have q: "sorted (map (\<lambda>r. the_number (p95 r)) (the (comparisonResults (sortComparison ''p95'' ?st))))"
    using resort_by_key [of ?st example_results "''p95''", OF c ne] p by simp
  have s: "sorted (rev (map successRate (the (comparisonResults (sortComparison ''successRate'' ?st)))))"
    using resort_by_key [of ?st example_results "''successRate''", OF c ne] by simp
  have "sorted (map (\<lambda>r. the_number (packetLoss r))
      (the (comparisonResults (sortComparison ''packetLoss'' ?est))))
      \<and> Enhanced_sortComparison ''packetLoss'' ?est = sortComparison ''packetLoss'' ?est"
    using resort_by_key [of ?est Enhanced_example_results "''packetLoss''", OF ec ene] l by simp
  then have e: "sorted (map (\<lambda>r. the_number (packetLoss r))
      (the (comparisonResults (Enhanced_sortComparison ''packetLoss'' ?est))))"
    by simp
  from c ne servers orders a j q s e f show ?thesis by blast
qed

end
